theory Spec2Isabelle
  imports Main "HOL-Library.Sublist"
begin

section \<open>The query relay of the ReliableParts dashboard\<close>

text \<open>
  The relay is the \<^verbatim>\<open>POST\<close> handler of \<^verbatim>\<open>app/api/ai/route.ts\<close>. It reads a JSON body,
  takes its \<^verbatim>\<open>query\<close>, fetches the product list of the catalogue, asks the language model
  when \<^verbatim>\<open>GEMINI_API_KEY\<close> is set, and answers with \<^verbatim>\<open>answer\<close>,
  \<^verbatim>\<open>recommendedProducts\<close> and \<^verbatim>\<open>relatedSuggestions\<close>.

  The handler is embedded as a pure function of the request body and of what the outside
  world does during the request (the environment variable, the outcome of the catalogue
  fetch, the outcome of the model call, \<^verbatim>\<open>JSON.parse\<close> and \<^verbatim>\<open>toLowerCase\<close>). It returns
  the response together with the list of upstream calls it attempted. Every \<^verbatim>\<open>throw\<close> of
  the source is a value \<open>Inl e\<close>, and every \<^verbatim>\<open>try/catch\<close> is a case distinction on it.
\<close>

subsection \<open>JavaScript values\<close>

text \<open>
  A JavaScript string is the list of its UTF-16 code units, each a number; \<open>js\<close> gives the
  code units of an ASCII literal of the source. Nothing below depends on a code unit being
  less than 65536.
\<close>

type_synonym jsstring = "nat list"

definition js :: "string \<Rightarrow> jsstring" where
  "js s = map of_char s"

text \<open>
  The request body, the catalogue's answer and the object parsed from the model's text are
  untyped in the source, so they are values of \<open>json\<close>. A number is kept as the text that
  JavaScript's number-to-string conversion gives it (\<open>JNum (js ''45.99'')\<close>): the handler
  only tests numbers for truth, compares them and prints them. \<^verbatim>\<open>undefined\<close> is \<open>None\<close> of
  \<open>jsval\<close>.
\<close>

datatype json =
    JNull
  | JBool bool
  | JNum jsstring
  | JStr jsstring
  | JArr "json list"
  | JObj "(jsstring \<times> json) list"

type_synonym jsval = "json option"

datatype js_error = TypeError | UpstreamError

text \<open>JavaScript's truthiness, as used by \<^verbatim>\<open>!query\<close>, \<^verbatim>\<open>a ? b : c\<close> and \<^verbatim>\<open>a || b\<close>.\<close>

fun truthy :: "jsval \<Rightarrow> bool" where
  "truthy None = False"
| "truthy (Some JNull) = False"
| "truthy (Some (JBool b)) = b"
| "truthy (Some (JNum n)) = (n \<noteq> js ''0'' \<and> n \<noteq> js ''NaN'')"
| "truthy (Some (JStr s)) = (s \<noteq> [])"
| "truthy (Some (JArr xs)) = True"
| "truthy (Some (JObj kvs)) = True"

text \<open>
  Reading a property \<^verbatim>\<open>v.k\<close> (also the destructuring \<^verbatim>\<open>const { query } = body\<close>):
  a \<^verbatim>\<open>TypeError\<close> on \<^verbatim>\<open>null\<close>, the stored value on an object, \<^verbatim>\<open>undefined\<close>
  on the other values (none of the names read by the handler is a built-in property).
\<close>

fun get_prop :: "json \<Rightarrow> jsstring \<Rightarrow> js_error + jsval" where
  "get_prop JNull k = Inl TypeError"
| "get_prop (JObj kvs) k = Inr (map_of kvs k)"
| "get_prop v k = Inr None"

text \<open>\<^verbatim>\<open>a || b\<close> on a value that may be undefined, with a defined right-hand side.\<close>

definition or_else :: "jsval \<Rightarrow> json \<Rightarrow> json" where
  "or_else a b = (case a of None \<Rightarrow> b | Some v \<Rightarrow> if truthy a then v else b)"

text \<open>
  The conversion to a string that a template literal and \<^verbatim>\<open>String.prototype.includes\<close>
  apply. An array is joined with commas, \<^verbatim>\<open>null\<close> elements giving the empty text. A plain
  object gives \<^verbatim>\<open>[object Object]\<close>, unless it has a property \<^verbatim>\<open>toString\<close> of its own:
  that property is data, not a function, \<^verbatim>\<open>valueOf\<close> returns no primitive either, and the
  conversion throws.
\<close>

fun to_string :: "json \<Rightarrow> js_error + jsstring"
  and join_array :: "json list \<Rightarrow> js_error + jsstring" where
  "to_string JNull = Inr (js ''null'')"
| "to_string (JBool b) = Inr (if b then js ''true'' else js ''false'')"
| "to_string (JNum n) = Inr n"
| "to_string (JStr s) = Inr s"
| "to_string (JArr xs) = join_array xs"
| "to_string (JObj kvs) =
     (if js ''toString'' \<in> fst ` set kvs then Inl TypeError
      else Inr (js ''[object Object]''))"
| "join_array [] = Inr []"
| "join_array (x # xs) =
     (case (if x = JNull then Inr [] else to_string x) of
        Inl e \<Rightarrow> Inl e
      | Inr s \<Rightarrow>
          (if xs = [] then Inr s
           else (case join_array xs of
                   Inl e \<Rightarrow> Inl e
                 | Inr t \<Rightarrow> Inr (s @ js '','' @ t))))"

definition to_string_val :: "jsval \<Rightarrow> js_error + jsstring" where
  "to_string_val v = (case v of None \<Rightarrow> Inr (js ''undefined'') | Some x \<Rightarrow> to_string x)"

subsection \<open>Strings\<close>

fun startsWith :: "jsstring \<Rightarrow> jsstring \<Rightarrow> bool" where
  "startsWith s [] = True"
| "startsWith [] (q # qs) = False"
| "startsWith (c # cs) (q # qs) = (c = q \<and> startsWith cs qs)"

text \<open>\<^verbatim>\<open>s.includes(q)\<close> on strings: \<open>q\<close> occurs in \<open>s\<close> as a contiguous piece.\<close>

fun str_includes :: "jsstring \<Rightarrow> jsstring \<Rightarrow> bool" where
  "str_includes [] q = (q = [])"
| "str_includes (c # cs) q = (startsWith (c # cs) q \<or> str_includes cs q)"

text \<open>The decimal text of a length, as a template literal prints it (48 is the digit 0).\<close>

fun str_nat :: "nat \<Rightarrow> jsstring" where
  "str_nat n = (if n < 10 then [48 + n] else str_nat (n div 10) @ [48 + n mod 10])"

declare str_nat.simps [simp del]

definition dquote :: jsstring where
  "dquote = [34]"

subsection \<open>Responses and the outside world\<close>

text \<open>
  A response is the HTTP status and the body's fields; a field that the body does not have
  is \<open>None\<close>.
\<close>

record response =
  status :: nat
  error :: "jsstring option"
  answer :: jsval
  recommendedProducts :: "json list option"
  relatedSuggestions :: jsval

datatype upstream = CatalogFetch | ModelCall

text \<open>
  What the world does during one request: the value of the environment variable
  (\<open>None\<close> when unset); what \<^verbatim>\<open>productsResponse.json()\<close> resolves to, whatever the HTTP
  status was (\<open>None\<close> when \<^verbatim>\<open>fetch\<close> or \<^verbatim>\<open>.json()\<close> rejects); the text the model returns
  (\<open>None\<close> when the call throws); \<^verbatim>\<open>JSON.parse\<close> (\<open>None\<close> when it throws a
  \<^verbatim>\<open>SyntaxError\<close>); and \<^verbatim>\<open>String.prototype.toLowerCase\<close>, the lower-casing of Unicode,
  of which nothing is assumed. The text of the prompt is not modelled, since the model's
  reply is arbitrary here; whether building it throws is.
\<close>

record world =
  GEMINI_API_KEY :: "jsstring option"
  catalog :: "json option"
  generateContent :: "jsstring option"
  JSON_parse :: "jsstring \<Rightarrow> json option"
  toLowerCase :: "jsstring \<Rightarrow> jsstring"

definition key_configured :: "world \<Rightarrow> bool" where
  "key_configured w = (case GEMINI_API_KEY w of None \<Rightarrow> False | Some k \<Rightarrow> k \<noteq> [])"

text \<open>Lines 13-15.\<close>

definition invalid_input :: response where
  "invalid_input =
     \<lparr>status = 400, error = Some (js ''Query is required''), answer = None,
      recommendedProducts = None, relatedSuggestions = None\<rparr>"

text \<open>Lines 161-172, the outermost \<^verbatim>\<open>catch\<close>.\<close>

definition route_error :: response where
  "route_error =
     \<lparr>status = 500, error = Some (js ''Failed to process query''),
      answer = Some (JStr (js ''Sorry, I encountered an error. Please try again.'')),
      recommendedProducts = Some [],
      relatedSuggestions =
        Some (JArr [JStr (js ''Try a simpler search''), JStr (js ''Contact support''),
                    JStr (js ''Browse categories'')])\<rparr>"

definition ok :: "json \<Rightarrow> json list \<Rightarrow> json \<Rightarrow> response" where
  "ok a ps s =
     \<lparr>status = 200, error = None, answer = Some a,
      recommendedProducts = Some ps, relatedSuggestions = Some s\<rparr>"

subsection \<open>The product array\<close>

text \<open>
  Lines 17-24: \<^verbatim>\<open>products\<close> is what \<^verbatim>\<open>.json()\<close> resolved to, and the empty array when
  the fetch failed. The source tests neither \<^verbatim>\<open>res.ok\<close> nor \<^verbatim>\<open>Array.isArray\<close>.
\<close>

definition fetched :: "world \<Rightarrow> json" where
  "fetched w = (case catalog w of None \<Rightarrow> JArr [] | Some v \<Rightarrow> v)"

text \<open>
  \<^verbatim>\<open>products.filter(f)\<close> and \<^verbatim>\<open>products.slice(0, 10).map(f)\<close> need an array: the other
  values lack \<^verbatim>\<open>filter\<close> or \<^verbatim>\<open>map\<close> (a string has \<^verbatim>\<open>slice\<close> but no \<^verbatim>\<open>map\<close>), and a
  property of that name in a parsed object is data, so the call throws.
\<close>

fun as_array :: "json \<Rightarrow> js_error + json list" where
  "as_array (JArr xs) = Inr xs"
| "as_array v = Inl TypeError"

text \<open>\<^verbatim>\<open>xs.filter(f)\<close> for a callback that may throw: the first throw ends the filter.\<close>

fun filter_js :: "('a \<Rightarrow> js_error + bool) \<Rightarrow> 'a list \<Rightarrow> js_error + 'a list" where
  "filter_js f [] = Inr []"
| "filter_js f (x # xs) =
     (case f x of
        Inl e \<Rightarrow> Inl e
      | Inr b \<Rightarrow>
          (case filter_js f xs of
             Inl e \<Rightarrow> Inl e
           | Inr ys \<Rightarrow> Inr (if b then x # ys else ys)))"

text \<open>
  \<^verbatim>\<open>v?.toLowerCase().includes(queryLower)\<close>: undefined, hence falsy, when \<open>v\<close> is
  \<^verbatim>\<open>undefined\<close> or \<^verbatim>\<open>null\<close>; a \<^verbatim>\<open>TypeError\<close> when \<open>v\<close> is not a string, since only
  strings have \<^verbatim>\<open>toLowerCase\<close>.
\<close>

fun field_includes :: "world \<Rightarrow> jsval \<Rightarrow> jsstring \<Rightarrow> js_error + bool" where
  "field_includes w None queryLower = Inr False"
| "field_includes w (Some JNull) queryLower = Inr False"
| "field_includes w (Some (JStr s)) queryLower = Inr (str_includes (toLowerCase w s) queryLower)"
| "field_includes w (Some v) queryLower = Inl TypeError"

text \<open>\<^verbatim>\<open>p.k?.toLowerCase().includes(queryLower)\<close> for an element \<open>p\<close> of the array.\<close>

definition prop_includes :: "world \<Rightarrow> json \<Rightarrow> jsstring \<Rightarrow> jsstring \<Rightarrow> js_error + bool" where
  "prop_includes w p k queryLower =
     (case get_prop p k of Inl e \<Rightarrow> Inl e | Inr v \<Rightarrow> field_includes w v queryLower)"

text \<open>\<^verbatim>\<open>a || b\<close> in a callback: \<open>b\<close> is evaluated only when \<open>a\<close> is falsy.\<close>

definition or_js :: "js_error + bool \<Rightarrow> js_error + bool \<Rightarrow> js_error + bool" where
  "or_js a b = (case a of Inl e \<Rightarrow> Inl e | Inr t \<Rightarrow> if t then Inr True else b)"

text \<open>The filter callback of lines 93-97 and of lines 116-120: name, category, sku.\<close>

definition matches_basic :: "world \<Rightarrow> jsstring \<Rightarrow> json \<Rightarrow> js_error + bool" where
  "matches_basic w queryLower p =
     or_js (prop_includes w p (js ''name'') queryLower)
       (or_js (prop_includes w p (js ''category'') queryLower)
          (prop_includes w p (js ''sku'') queryLower))"

text \<open>The filter callback of lines 139-144: name, category, sku, manufacturer.\<close>

definition matches_nokey :: "world \<Rightarrow> jsstring \<Rightarrow> json \<Rightarrow> js_error + bool" where
  "matches_nokey w queryLower p =
     or_js (prop_includes w p (js ''name'') queryLower)
       (or_js (prop_includes w p (js ''category'') queryLower)
          (or_js (prop_includes w p (js ''sku'') queryLower)
             (prop_includes w p (js ''manufacturer'') queryLower)))"

subsection \<open>The handler\<close>

text \<open>\<^verbatim>\<open>query.toLowerCase()\<close>: only a string has the method.\<close>

fun queryLower :: "world \<Rightarrow> jsval \<Rightarrow> js_error + jsstring" where
  "queryLower w (Some (JStr s)) = Inr (toLowerCase w s)"
| "queryLower w v = Inl TypeError"

text \<open>\<^verbatim>\<open>${query}\<close> after \<^verbatim>\<open>query.toLowerCase()\<close> has succeeded: the query is a string.\<close>

fun query_text :: "jsval \<Rightarrow> jsstring" where
  "query_text (Some (JStr s)) = s"
| "query_text v = []"

text \<open>
  Lines 31-60, the prompt. The template converts \<^verbatim>\<open>query\<close> to a string and projects the
  first ten products to five of their properties, which throws on a \<^verbatim>\<open>null\<close> element.
  \<^verbatim>\<open>JSON.stringify\<close> does not throw on such data. The result here is the list of the
  projections.
\<close>

definition project :: "json \<Rightarrow> js_error + (jsstring \<times> jsval) list" where
  "project p =
     (case (get_prop p (js ''sku''), get_prop p (js ''name''), get_prop p (js ''category''),
            get_prop p (js ''price''), get_prop p (js ''in_stock'')) of
        (Inr s, Inr n, Inr c, Inr pr, Inr i) \<Rightarrow>
          Inr [(js ''sku'', s), (js ''name'', n), (js ''category'', c), (js ''price'', pr),
               (js ''in_stock'', i)]
      | _ \<Rightarrow> Inl TypeError)"

fun map_js :: "('a \<Rightarrow> js_error + 'b) \<Rightarrow> 'a list \<Rightarrow> js_error + 'b list" where
  "map_js f [] = Inr []"
| "map_js f (x # xs) =
     (case f x of
        Inl e \<Rightarrow> Inl e
      | Inr y \<Rightarrow> (case map_js f xs of Inl e \<Rightarrow> Inl e | Inr ys \<Rightarrow> Inr (y # ys)))"

definition build_prompt ::
  "jsval \<Rightarrow> json \<Rightarrow> js_error + (jsstring \<times> jsval) list list" where
  "build_prompt query products =
     (case to_string_val query of
        Inl e \<Rightarrow> Inl e
      | Inr q \<Rightarrow>
          (case as_array products of
             Inl e \<Rightarrow> Inl e
           | Inr ps \<Rightarrow> map_js project (take 10 ps)))"

text \<open>
  Line 70, \<^verbatim>\<open>text.match(/\{[\s\S]*\}/)\<close>: the match starts at the first opening brace and,
  the star being greedy, ends at the last closing brace after it; there is no match when no
  closing brace follows the first opening one. 123 and 125 are the two braces.
\<close>

definition jsonMatch :: "jsstring \<Rightarrow> jsstring option" where
  "jsonMatch text =
     (let t = dropWhile (\<lambda>c. c \<noteq> 123) text;
          m = rev (dropWhile (\<lambda>c. c \<noteq> 125) (rev t))
      in if m = [] then None else Some m)"

text \<open>Lines 78-82, the object used when nothing could be parsed.\<close>

definition text_response :: "jsstring \<Rightarrow> json" where
  "text_response text =
     JObj [(js ''answer'', JStr (take 500 text)), (js ''productSkus'', JArr []),
           (js ''suggestions'', JArr [])]"

text \<open>Lines 67-83.\<close>

definition aiResponse :: "world \<Rightarrow> jsstring \<Rightarrow> json" where
  "aiResponse w text =
     (case jsonMatch text of
        None \<Rightarrow> text_response text
      | Some m \<Rightarrow> (case JSON_parse w m of None \<Rightarrow> text_response text | Some v \<Rightarrow> v))"

text \<open>
  \<^verbatim>\<open>aiResponse.productSkus.includes(x)\<close> for a truthy \<^verbatim>\<open>productSkus\<close>. On an array it is
  membership by \<^verbatim>\<open>SameValueZero\<close>: a primitive equals the elements of the same value, an
  object or array parsed elsewhere equals none, and \<^verbatim>\<open>undefined\<close> is no element of a
  parsed array. On a string it is substring search for \<open>x\<close> converted to a string. A
  number, \<^verbatim>\<open>true\<close> or an object has no such method.
\<close>

fun is_primitive :: "json \<Rightarrow> bool" where
  "is_primitive (JArr xs) = False"
| "is_primitive (JObj kvs) = False"
| "is_primitive v = True"

fun includes_js :: "json \<Rightarrow> jsval \<Rightarrow> js_error + bool" where
  "includes_js (JArr xs) x =
     Inr (case x of None \<Rightarrow> False | Some u \<Rightarrow> is_primitive u \<and> u \<in> set xs)"
| "includes_js (JStr str) x =
     (case to_string_val x of Inl e \<Rightarrow> Inl e | Inr t \<Rightarrow> Inr (str_includes str t))"
| "includes_js v x = Inl TypeError"

text \<open>The callback of line 87, \<^verbatim>\<open>p => aiResponse.productSkus.includes(p.sku)\<close>.\<close>

definition skus_include :: "json \<Rightarrow> json \<Rightarrow> js_error + bool" where
  "skus_include productSkus p =
     (case get_prop p (js ''sku'') of Inl e \<Rightarrow> Inl e | Inr x \<Rightarrow> includes_js productSkus x)"

text \<open>Lines 85-88, mapping the SKUs of the model back to products.\<close>

definition map_skus :: "jsval \<Rightarrow> json \<Rightarrow> js_error + json list" where
  "map_skus productSkus products =
     (case productSkus of
        None \<Rightarrow> Inr []
      | Some v \<Rightarrow>
          if truthy productSkus then
            (case as_array products of
               Inl e \<Rightarrow> Inl e
             | Inr ps \<Rightarrow>
                 (case filter_js (skus_include v) ps of
                    Inl e \<Rightarrow> Inl e
                  | Inr rs \<Rightarrow> Inr (take 5 rs)))
          else Inr [])"

text \<open>Lines 90-100.\<close>

definition basic_filtering :: "world \<Rightarrow> jsval \<Rightarrow> json \<Rightarrow> json list \<Rightarrow> js_error + json list" where
  "basic_filtering w query products recommended =
     (if length recommended = 0 then
        (case queryLower w query of
           Inl e \<Rightarrow> Inl e
         | Inr ql \<Rightarrow>
             (case as_array products of
                Inl e \<Rightarrow> Inl e
              | Inr ps \<Rightarrow>
                  (case filter_js (matches_basic w ql) ps of
                     Inl e \<Rightarrow> Inl e
                   | Inr filtered \<Rightarrow> Inr (recommended @ take 5 filtered))))
      else Inr recommended)"

text \<open>The fixed sentence of line 103.\<close>

definition interest_sentence :: "nat \<Rightarrow> jsstring" where
  "interest_sentence n = js ''I found '' @ str_nat n @ js '' products that might interest you.''"

text \<open>Lines 66-110: what the \<^verbatim>\<open>try\<close> block does once the model has returned \<open>text\<close>.\<close>

definition gemini_try :: "world \<Rightarrow> jsval \<Rightarrow> json \<Rightarrow> jsstring \<Rightarrow> js_error + response" where
  "gemini_try w query products text =
     (let ai = aiResponse w text in
      case get_prop ai (js ''productSkus'') of
        Inl e \<Rightarrow> Inl e
      | Inr productSkus \<Rightarrow>
          (case map_skus productSkus products of
             Inl e \<Rightarrow> Inl e
           | Inr mapped \<Rightarrow>
               (case basic_filtering w query products mapped of
                  Inl e \<Rightarrow> Inl e
                | Inr recommended \<Rightarrow>
                    (case (get_prop ai (js ''answer''), get_prop ai (js ''suggestions'')) of
                       (Inr a, Inr s) \<Rightarrow>
                         Inr (ok (or_else a (JStr (interest_sentence (length recommended))))
                                 recommended
                                 (or_else s
                                    (JArr [JStr (js ''Try filtering by brand''),
                                           JStr (js ''Check product compatibility''),
                                           JStr (js ''View similar items'')])))
                     | _ \<Rightarrow> Inl TypeError))))"

text \<open>\<^verbatim>\<open>${filteredProducts[0].k}\<close> in a template.\<close>

definition prop_text :: "json \<Rightarrow> jsstring \<Rightarrow> js_error + jsstring" where
  "prop_text p k = (case get_prop p k of Inl e \<Rightarrow> Inl e | Inr v \<Rightarrow> to_string_val v)"

text \<open>Lines 112-135, the \<^verbatim>\<open>catch\<close> of the model call.\<close>

definition gemini_catch :: "world \<Rightarrow> jsval \<Rightarrow> json \<Rightarrow> js_error + response" where
  "gemini_catch w query products =
     (case queryLower w query of
        Inl e \<Rightarrow> Inl e
      | Inr ql \<Rightarrow>
          (case as_array products of
             Inl e \<Rightarrow> Inl e
           | Inr ps \<Rightarrow>
               (case filter_js (matches_basic w ql) ps of
                  Inl e \<Rightarrow> Inl e
                | Inr filtered \<Rightarrow>
                    (let filteredProducts = take 5 filtered in
                     case (case filteredProducts of
                             p # rest \<Rightarrow>
                               (case prop_text p (js ''name'') of
                                  Inl e \<Rightarrow> Inl e
                                | Inr n \<Rightarrow> Inr (js ''The top result is '' @ n @ js ''.''))
                           | [] \<Rightarrow>
                               Inr (js ''Try searching for specific brands or product types.'')) of
                       Inl e \<Rightarrow> Inl e
                     | Inr tail \<Rightarrow>
                         Inr (ok (JStr (js ''I found '' @ str_nat (length filteredProducts) @
                                        js '' products matching '' @ dquote @ query_text query @
                                        dquote @ js ''. '' @ tail))
                                 filteredProducts
                                 (JArr [JStr (js ''Check product availability''),
                                        JStr (js ''View specifications''),
                                        JStr (js ''Compare prices'')]))))))"

text \<open>Lines 136-159, the branch without a key.\<close>

definition top_result :: "json \<Rightarrow> js_error + jsstring" where
  "top_result p =
     (case (prop_text p (js ''name''), prop_text p (js ''sku''), prop_text p (js ''price'')) of
        (Inr n, Inr s, Inr pr) \<Rightarrow>
          Inr (js ''Top result: '' @ n @ js '' ('' @ s @ js '') - $'' @ pr)
      | _ \<Rightarrow> Inl TypeError)"

definition basic_search :: "world \<Rightarrow> jsval \<Rightarrow> json \<Rightarrow> js_error + response" where
  "basic_search w query products =
     (case queryLower w query of
        Inl e \<Rightarrow> Inl e
      | Inr ql \<Rightarrow>
          (case as_array products of
             Inl e \<Rightarrow> Inl e
           | Inr ps \<Rightarrow>
               (case filter_js (matches_nokey w ql) ps of
                  Inl e \<Rightarrow> Inl e
                | Inr filtered \<Rightarrow>
                    (let filteredProducts = take 5 filtered in
                     case (case filteredProducts of
                             p # rest \<Rightarrow> top_result p
                           | [] \<Rightarrow>
                               Inr (js ''Try searching for brands like Whirlpool, GE, or product types like pump, filter.'')) of
                       Inl e \<Rightarrow> Inl e
                     | Inr tail \<Rightarrow>
                         Inr (ok (JStr (js ''Found '' @ str_nat (length filteredProducts) @
                                        js '' products matching '' @ dquote @ query_text query @
                                        dquote @ js ''. '' @ tail))
                                 filteredProducts
                                 (JArr [JStr (js ''Try searching by brand''),
                                        JStr (js ''Look for specific part types''),
                                        JStr (js ''Check compatibility'')]))))))"

text \<open>
  Lines 26-135, with the inner \<^verbatim>\<open>try/catch\<close>. The model is called once the prompt is
  built; the second component tells whether it was.
\<close>

definition with_key :: "world \<Rightarrow> jsval \<Rightarrow> json \<Rightarrow> (js_error + response) \<times> upstream list" where
  "with_key w query products =
     (case build_prompt query products of
        Inl geminiError \<Rightarrow> (gemini_catch w query products, [])
      | Inr prompt \<Rightarrow>
          (case generateContent w of
             None \<Rightarrow> (gemini_catch w query products, [ModelCall])
           | Some text \<Rightarrow>
               (case gemini_try w query products text of
                  Inr r \<Rightarrow> (Inr r, [ModelCall])
                | Inl geminiError \<Rightarrow> (gemini_catch w query products, [ModelCall]))))"

text \<open>
  The handler. \<open>body\<close> is what \<^verbatim>\<open>request.json()\<close> gives (\<open>None\<close> when it rejects). The second
  component lists the upstream calls attempted, in order.
\<close>

definition POST :: "json option \<Rightarrow> world \<Rightarrow> response \<times> upstream list" where
  "POST body w =
     (case body of
        None \<Rightarrow> (route_error, [])
      | Some b \<Rightarrow>
          (case get_prop b (js ''query'') of
             Inl e \<Rightarrow> (route_error, [])
           | Inr query \<Rightarrow>
               if \<not> truthy query then (invalid_input, [])
               else
                 let products = fetched w in
                 if key_configured w then
                   (case with_key w query products of
                      (Inr r, calls) \<Rightarrow> (r, CatalogFetch # calls)
                    | (Inl e, calls) \<Rightarrow> (route_error, CatalogFetch # calls))
                 else
                   (case basic_search w query products of
                      Inr r \<Rightarrow> (r, [CatalogFetch])
                    | Inl e \<Rightarrow> (route_error, [CatalogFetch]))))"


subsection \<open>The specification's wording, for comparison\<close>

text \<open>
  A product of the catalogue, as the data model and the dashboard's \<^verbatim>\<open>interface Product\<close>
  have it: an object whose name, category, manufacturer and SKU are strings (or absent, or
  \<^verbatim>\<open>null\<close>) and whose price is a number or \<^verbatim>\<open>null\<close> (or absent, a string or a boolean).
\<close>

definition field_of :: "json \<Rightarrow> jsstring \<Rightarrow> jsval" where
  "field_of p k = (case p of JObj kvs \<Rightarrow> map_of kvs k | _ \<Rightarrow> None)"

fun is_text :: "jsval \<Rightarrow> bool" where
  "is_text None = True"
| "is_text (Some JNull) = True"
| "is_text (Some (JStr s)) = True"
| "is_text (Some v) = False"

fun is_printable :: "jsval \<Rightarrow> bool" where
  "is_printable (Some (JArr xs)) = False"
| "is_printable (Some (JObj kvs)) = False"
| "is_printable v = True"

definition is_product :: "json \<Rightarrow> bool" where
  "is_product p =
     ((case p of JObj kvs \<Rightarrow> True | _ \<Rightarrow> False) \<and>
      is_text (field_of p (js ''name'')) \<and> is_text (field_of p (js ''category'')) \<and>
      is_text (field_of p (js ''manufacturer'')) \<and> is_text (field_of p (js ''sku'')) \<and>
      is_printable (field_of p (js ''price'')))"


text \<open>
  The fallback matcher as the specification words it: a product matches when its name,
  category, manufacturer or SKU contains the query, case-insensitively. A text contains
  another when the second is a contiguous part of the first (\<open>sublist\<close>); in JavaScript's
  terms the comparison is case-insensitive when both texts are lower-cased first.
\<close>

definition contains_ci :: "world \<Rightarrow> jsval \<Rightarrow> jsstring \<Rightarrow> bool" where
  "contains_ci w v q =
     (case v of Some (JStr s) \<Rightarrow> sublist (toLowerCase w q) (toLowerCase w s) | _ \<Rightarrow> False)"


text \<open>The same over name, category and SKU only.\<close>

definition name_category_sku_matcher :: "world \<Rightarrow> jsstring \<Rightarrow> json \<Rightarrow> bool" where
  "name_category_sku_matcher w q p =
     (contains_ci w (field_of p (js ''name'')) q \<or>
      contains_ci w (field_of p (js ''category'')) q \<or>
      contains_ci w (field_of p (js ''sku'')) q)"








text \<open>
  On ASCII texts \<^verbatim>\<open>toLowerCase\<close> adds 32 to the code units of the upper-case letters and
  leaves the others.
\<close>

definition lower_unit :: "nat \<Rightarrow> nat" where
  "lower_unit c = (if 65 \<le> c \<and> c \<le> 90 then c + 32 else c)"


text \<open>
  The SKU mapping in the specification's words: the products whose SKU is one of the
  returned SKUs, by exact match. \<open>sku_list\<close> reads the SKUs off a \<^verbatim>\<open>productSkus\<close> that is
  an array; one that is missing or falsy lists none.
\<close>

definition sku_listed :: "json list \<Rightarrow> json \<Rightarrow> bool" where
  "sku_listed skus p =
     (case field_of p (js ''sku'') of
        None \<Rightarrow> False
      | Some u \<Rightarrow> is_primitive u \<and> u \<in> set skus)"

fun absent_falsy_or_array :: "jsval \<Rightarrow> bool" where
  "absent_falsy_or_array None = True"
| "absent_falsy_or_array (Some (JArr xs)) = True"
| "absent_falsy_or_array (Some v) = (\<not> truthy (Some v))"

fun sku_list :: "jsval \<Rightarrow> json list" where
  "sku_list (Some (JArr xs)) = xs"
| "sku_list v = []"

text \<open>
  A request with a non-empty string as its query, met by a catalogue of products (the empty
  array when the fetch was rejected).
\<close>

definition string_query_over_products :: "world \<Rightarrow> json option \<Rightarrow> bool" where
  "string_query_over_products w body =
     (\<exists>b q ps. body = Some b \<and> get_prop b (js ''query'') = Inr (Some (JStr q)) \<and> q \<noteq> [] \<and>
        fetched w = JArr ps \<and> list_all is_product ps)"

text \<open>
  A reply of the model is unparsed when the pattern finds nothing in it or \<^verbatim>\<open>JSON.parse\<close>
  rejects what it finds.
\<close>

definition unparsed :: "world \<Rightarrow> jsstring \<Rightarrow> bool" where
  "unparsed w reply =
     (case jsonMatch reply of None \<Rightarrow> True | Some m \<Rightarrow> JSON_parse w m = None)"

text \<open>
  The extraction as the specification words it: the first substring that opens with a brace
  and ends at the brace closing it. \<open>close_brace d cs\<close> reads \<open>cs\<close> up to the closing brace
  at nesting depth \<open>d\<close>.
\<close>

fun close_brace :: "nat \<Rightarrow> jsstring \<Rightarrow> jsstring option" where
  "close_brace d [] = None"
| "close_brace d (c # cs) =
     (if c = 125 then
        (if d = 0 then Some [c] else map_option ((#) c) (close_brace (d - 1) cs))
      else if c = 123 then map_option ((#) c) (close_brace (Suc d) cs)
      else map_option ((#) c) (close_brace d cs))"

fun spec_first_balanced :: "jsstring \<Rightarrow> jsstring option" where
  "spec_first_balanced [] = None"
| "spec_first_balanced (c # cs) =
     (if c = 123 then
        (case close_brace 0 cs of
           Some m \<Rightarrow> Some (c # m)
         | None \<Rightarrow> spec_first_balanced cs)
      else spec_first_balanced cs)"

text \<open>The four fixed suggestion arrays of the source (lines 105-109, 129-133, 153-157, 168).\<close>

definition default_suggestions :: json where
  "default_suggestions =
     JArr [JStr (js ''Try filtering by brand''), JStr (js ''Check product compatibility''),
           JStr (js ''View similar items'')]"

definition model_error_suggestions :: json where
  "model_error_suggestions =
     JArr [JStr (js ''Check product availability''), JStr (js ''View specifications''),
           JStr (js ''Compare prices'')]"

definition no_key_suggestions :: json where
  "no_key_suggestions =
     JArr [JStr (js ''Try searching by brand''), JStr (js ''Look for specific part types''),
           JStr (js ''Check compatibility'')]"

definition route_error_suggestions :: json where
  "route_error_suggestions =
     JArr [JStr (js ''Try a simpler search''), JStr (js ''Contact support''),
           JStr (js ''Browse categories'')]"

definition fixed_pools :: "json list" where
  "fixed_pools =
     [default_suggestions, model_error_suggestions, no_key_suggestions,
      route_error_suggestions]"

subsection \<open>Sample data\<close>

text \<open>
  Two products; a catalogue in which seven entries are the drain pump; the body with which
  a catalogue answers an HTTP error; a reply of the model that names one SKU, one that
  makes four suggestions and one that wraps the latter in prose; and, for the sample worlds, a \<^verbatim>\<open>JSON.parse\<close> and a
  \<^verbatim>\<open>toLowerCase\<close> that agree with JavaScript's on the texts handed to them there:
  \<^verbatim>\<open>{}\<close> is the empty object, the braces of \<open>sku_reply\<close> and \<open>four_reply\<close> hold an object
  with one field each, the other texts are not JSON, and all texts are ASCII.
\<close>

definition drain_pump :: json where
  "drain_pump =
     JObj [(js ''sku'', JStr (js ''WP-100'')), (js ''name'', JStr (js ''Drain Pump'')),
           (js ''category'', JStr (js ''Dishwasher'')),
           (js ''manufacturer'', JStr (js ''Whirlpool'')), (js ''price'', JNum (js ''45.99'')),
           (js ''in_stock'', JBool True)]"

definition water_filter :: json where
  "water_filter =
     JObj [(js ''sku'', JStr (js ''GE-7'')), (js ''name'', JStr (js ''Water Filter'')),
           (js ''category'', JStr (js ''Refrigerator'')), (js ''manufacturer'', JStr (js ''GE'')),
           (js ''price'', JNull), (js ''in_stock'', JBool False)]"

definition pumps :: "json list" where
  "pumps = [drain_pump, water_filter, drain_pump, drain_pump, drain_pump, drain_pump,
            drain_pump, drain_pump]"

definition error_body :: json where
  "error_body = JObj [(js ''error'', JStr (js ''Internal Server Error''))]"

definition sku_match :: jsstring where
  \<open>sku_match = js ''{"productSkus":["GE-7"]}''\<close>

definition sku_reply :: jsstring where
  "sku_reply = js ''Sure: '' @ sku_match"

definition four_reply :: jsstring where
  \<open>four_reply = js ''{"suggestions":["a","b","c","d"]}''\<close>

definition wrapped_reply :: jsstring where
  "wrapped_reply = js ''Here you go: '' @ four_reply @ js '' Anything else?''"

definition sample_parse :: "jsstring \<Rightarrow> json option" where
  \<open>sample_parse s =
     (if s = js ''{}'' then Some (JObj [])
      else if s = sku_match
      then Some (JObj [(js ''productSkus'', JArr [JStr (js ''GE-7'')])])
      else if s = js ''{"suggestions":["a","b","c","d"]}''
      then Some (JObj [(js ''suggestions'',
                        JArr [JStr (js ''a''), JStr (js ''b''), JStr (js ''c''),
                              JStr (js ''d'')])])
      else None)\<close>

text \<open>A second parser, which agrees with the first on \<open>sku_match\<close> and rejects every other text.\<close>

definition narrow_parse :: "jsstring \<Rightarrow> json option" where
  "narrow_parse s = (if s = sku_match then sample_parse s else None)"

definition sample_lower :: "jsstring \<Rightarrow> jsstring" where
  "sample_lower s = map lower_unit s"

definition ask :: "string \<Rightarrow> json option" where
  "ask q = Some (JObj [(js ''query'', JStr (js q))])"

definition no_key :: "json option \<Rightarrow> world" where
  "no_key c =
     \<lparr>GEMINI_API_KEY = None, catalog = c, generateContent = None, JSON_parse = sample_parse,
      toLowerCase = sample_lower\<rparr>"

definition keyed :: "json option \<Rightarrow> jsstring option \<Rightarrow> world" where
  "keyed c g =
     \<lparr>GEMINI_API_KEY = Some (js ''key''), catalog = c, generateContent = g,
      JSON_parse = sample_parse, toLowerCase = sample_lower\<rparr>"

lemmas sample_defs =
  drain_pump_def water_filter_def pumps_def error_body_def sku_match_def sku_reply_def
  four_reply_def wrapped_reply_def sample_parse_def narrow_parse_def
  sample_lower_def lower_unit_def ask_def no_key_def keyed_def

lemmas handler_defs =
  POST_def key_configured_def fetched_def with_key_def build_prompt_def project_def
  basic_search_def gemini_catch_def gemini_try_def basic_filtering_def map_skus_def
  skus_include_def aiResponse_def text_response_def jsonMatch_def ok_def route_error_def
  invalid_input_def or_else_def matches_basic_def matches_nokey_def prop_includes_def
  or_js_def top_result_def prop_text_def to_string_val_def interest_sentence_def dquote_def
  js_def

section \<open>Properties\<close>

subsection \<open>Containment of texts, filters\<close>

lemma startsWith_prefix: "startsWith s q = prefix q s"
  by (induction s q rule: startsWith.induct) auto

lemma str_includes_sublist: "str_includes s q = sublist q s"
proof (induction s)
  case Nil
  then show ?case by simp
next
  case (Cons c cs)
  then show ?case by (simp add: startsWith_prefix sublist_Cons_right)
qed

lemma filter_js_pure:
  "(\<And>x. x \<in> set xs \<Longrightarrow> f x = Inr (P x)) \<Longrightarrow> filter_js f xs = Inr (filter P xs)"
  by (induction xs) auto

lemma map_js_total:
  "(\<And>x. x \<in> set xs \<Longrightarrow> \<exists>y. f x = Inr y) \<Longrightarrow> \<exists>ys. map_js f xs = Inr ys"
proof (induction xs)
  case Nil
  then show ?case by simp
next
  case (Cons x xs)
  obtain y where y: "f x = Inr y" using Cons.prems by auto
  obtain ys where "map_js f xs = Inr ys" using Cons by auto
  then show ?case using y by simp
qed

lemma get_prop_field_of: "p \<noteq> JNull \<Longrightarrow> get_prop p k = Inr (field_of p k)"
  by (cases p) (simp_all add: field_of_def)

lemma project_total: "p \<noteq> JNull \<Longrightarrow> \<exists>y. project p = Inr y"
  by (simp add: project_def get_prop_field_of)

lemma build_prompt_total:
  assumes "to_string_val query = Inr t" and "JNull \<notin> set ps"
  shows "\<exists>prompt. build_prompt query (JArr ps) = Inr prompt"
proof -
  have "\<And>p. p \<in> set (take 10 ps) \<Longrightarrow> \<exists>y. project p = Inr y"
    using assms(2) by (metis in_set_takeD project_total)
  then obtain ys where "map_js project (take 10 ps) = Inr ys"
    using map_js_total [of "take 10 ps" project] by blast
  then show ?thesis using assms(1) by (simp add: build_prompt_def)
qed

subsection \<open>At most five recommendations\<close>

lemma map_skus_length: "map_skus v products = Inr ps \<Longrightarrow> length ps \<le> 5"
  by (auto simp: map_skus_def split: option.splits if_splits sum.splits)

lemma basic_filtering_length:
  "length mapped \<le> 5 \<Longrightarrow> basic_filtering w query products mapped = Inr ps \<Longrightarrow>
     length ps \<le> 5"
  by (auto simp: basic_filtering_def split: if_splits sum.splits)

lemma gemini_try_length:
  "gemini_try w query products reply = Inr r \<Longrightarrow>
     \<exists>ps. recommendedProducts r = Some ps \<and> length ps \<le> 5"
  unfolding gemini_try_def Let_def
  by (auto simp: ok_def split: sum.splits prod.splits
      dest!: map_skus_length basic_filtering_length[rotated])

lemma gemini_catch_length:
  "gemini_catch w query products = Inr r \<Longrightarrow>
     \<exists>ps. recommendedProducts r = Some ps \<and> length ps \<le> 5"
  unfolding gemini_catch_def Let_def
  by (auto simp: ok_def split: sum.splits)

lemma basic_search_length:
  "basic_search w query products = Inr r \<Longrightarrow>
     \<exists>ps. recommendedProducts r = Some ps \<and> length ps \<le> 5"
  unfolding basic_search_def Let_def
  by (auto simp: ok_def split: sum.splits)

lemma with_key_length:
  "with_key w query products = (Inr r, calls) \<Longrightarrow>
     \<exists>ps. recommendedProducts r = Some ps \<and> length ps \<le> 5"
  unfolding with_key_def
  by (auto split: sum.splits option.splits dest: gemini_try_length gemini_catch_length)

text \<open>
  C10. Whatever the body and whatever the world does, a response with status 200 has a
  \<^verbatim>\<open>recommendedProducts\<close> list of at most five products. The handler's four ways of
  filling the list (the SKUs of the model, the substring filter after an empty mapping, the
  filter after a failed model call, the filter without a key) are all paths of \<open>POST\<close>.
\<close>

theorem C10_at_most_five_recommended:
  "status (fst (POST body w)) = 200 \<Longrightarrow>
     \<exists>ps. recommendedProducts (fst (POST body w)) = Some ps \<and> length ps \<le> 5"
  unfolding POST_def Let_def
  by (auto simp: route_error_def invalid_input_def
      split: option.splits sum.splits if_splits prod.splits
      dest: with_key_length basic_search_length)

theorem C10_at_most_five_recommended_witness:
  "status (fst (POST (ask ''pump'') (no_key (Some (JArr pumps))))) = 200 \<and>
   (\<exists>ps. recommendedProducts (fst (POST (ask ''pump'') (no_key (Some (JArr pumps))))) = Some ps \<and>
         length ps \<le> 5)"
proof -
  have h: "status (fst (POST (ask ''pump'') (no_key (Some (JArr pumps))))) = 200"
    by (simp add: handler_defs sample_defs)
  show ?thesis
    using h C10_at_most_five_recommended [OF h] by simp
qed

subsection \<open>Which responses there are\<close>

lemma gemini_try_ok:
  "gemini_try w query products reply = Inr r \<Longrightarrow> status r = 200 \<and> error r = None"
  unfolding gemini_try_def Let_def
  by (auto simp: ok_def split: sum.splits prod.splits)

lemma gemini_catch_ok:
  "gemini_catch w query products = Inr r \<Longrightarrow> status r = 200 \<and> error r = None"
  unfolding gemini_catch_def Let_def
  by (auto simp: ok_def split: sum.splits)

lemma basic_search_ok:
  "basic_search w query products = Inr r \<Longrightarrow> status r = 200 \<and> error r = None"
  unfolding basic_search_def Let_def
  by (auto simp: ok_def split: sum.splits)

lemma with_key_ok:
  "with_key w query products = (Inr r, calls) \<Longrightarrow> status r = 200 \<and> error r = None"
  unfolding with_key_def
  by (auto split: sum.splits option.splits dest: gemini_try_ok gemini_catch_ok)

lemma POST_cases:
  "fst (POST body w) = invalid_input \<or> fst (POST body w) = route_error \<or>
   (status (fst (POST body w)) = 200 \<and> error (fst (POST body w)) = None)"
  unfolding POST_def Let_def
  by (auto split: option.splits sum.splits prod.splits dest: with_key_ok basic_search_ok)

subsection \<open>The query check\<close>

text \<open>
  C1, as the source has it. Lines 10-11 read the body and its \<^verbatim>\<open>query\<close>; line 13 tests
  \<^verbatim>\<open>!query\<close>. When the body cannot be read as JSON or is \<^verbatim>\<open>null\<close>, lines 10-11 throw
  and the response is the 500 one. When the body is another JSON value and its query is
  missing, \<^verbatim>\<open>null\<close>, the empty string or another falsy value, the response is the 400
  \<^verbatim>\<open>{error: 'Query is required'}\<close>. In both cases no upstream call is attempted. Every
  truthy query, a whitespace-only string included, passes the check: the response is not
  the 400 one and the first upstream call, the catalogue fetch, is attempted.
\<close>

theorem C1_falsy_query_rejected_before_upstream:
  "(body = None \<or> body = Some JNull \<longrightarrow> POST body w = (route_error, [])) \<and>
   (body = Some b \<and> b \<noteq> JNull \<and> \<not> truthy (field_of b (js ''query'')) \<longrightarrow>
      POST body w = (invalid_input, [])) \<and>
   (body = Some b \<and> b \<noteq> JNull \<and> truthy (field_of b (js ''query'')) \<longrightarrow>
      fst (POST body w) \<noteq> invalid_input \<and> take 1 (snd (POST body w)) = [CatalogFetch])"
proof (intro conjI impI)
  assume "body = None \<or> body = Some JNull"
  then show "POST body w = (route_error, [])"
    by (auto simp: POST_def)
next
  assume "body = Some b \<and> b \<noteq> JNull \<and> \<not> truthy (field_of b (js ''query''))"
  then show "POST body w = (invalid_input, [])"
    by (simp add: POST_def get_prop_field_of)
next
  assume h: "body = Some b \<and> b \<noteq> JNull \<and> truthy (field_of b (js ''query''))"
  then show "fst (POST body w) \<noteq> invalid_input"
    unfolding POST_def Let_def
    by (auto simp: get_prop_field_of invalid_input_def route_error_def
        split: sum.splits prod.splits dest: with_key_ok basic_search_ok)
  from h show "take 1 (snd (POST body w)) = [CatalogFetch]"
    unfolding POST_def Let_def
    by (auto simp: get_prop_field_of split: sum.splits prod.splits)
qed

theorem C1_missing_query_witness:
  "POST None (keyed (Some (JArr pumps)) (Some (js ''{}''))) = (route_error, []) \<and>
   POST (Some JNull) (keyed (Some (JArr pumps)) (Some (js ''{}''))) = (route_error, []) \<and>
   POST (Some (JObj [])) (keyed (Some (JArr pumps)) (Some (js ''{}''))) = (invalid_input, []) \<and>
   POST (ask []) (keyed (Some (JArr pumps)) (Some (js ''{}''))) = (invalid_input, []) \<and>
   fst (POST (ask ''   '') (keyed (Some (JArr pumps)) (Some (js ''{}'')))) \<noteq> invalid_input \<and>
   take 1 (snd (POST (ask ''   '') (keyed (Some (JArr pumps)) (Some (js ''{}''))))) =
     [CatalogFetch]"
  using C1_falsy_query_rejected_before_upstream
          [of None "keyed (Some (JArr pumps)) (Some (js ''{}''))" JNull]
        C1_falsy_query_rejected_before_upstream
          [of "Some JNull" "keyed (Some (JArr pumps)) (Some (js ''{}''))" JNull]
        C1_falsy_query_rejected_before_upstream
          [of "Some (JObj [])" "keyed (Some (JArr pumps)) (Some (js ''{}''))" "JObj []"]
        C1_falsy_query_rejected_before_upstream
          [of "ask []" "keyed (Some (JArr pumps)) (Some (js ''{}''))"
              "JObj [(js ''query'', JStr (js []))]"]
        C1_falsy_query_rejected_before_upstream
          [of "ask ''   ''" "keyed (Some (JArr pumps)) (Some (js ''{}''))"
              "JObj [(js ''query'', JStr (js ''   ''))]"]
  by (simp add: ask_def field_of_def js_def)

text \<open>
  C1 as the specification states it fails on a whitespace-only query: the query of one
  blank is answered with status 200 after a catalogue fetch (the blank even matches the
  names that contain one).
\<close>

theorem C1_whitespace_query_counterexample:
  "status (fst (POST (ask '' '') (no_key (Some (JArr pumps))))) = 200 \<and>
   snd (POST (ask '' '') (no_key (Some (JArr pumps)))) = [CatalogFetch]"
  by (simp add: handler_defs sample_defs)

subsection \<open>The bodies of the failure responses\<close>

text \<open>
  C5, as the source has it. A response that carries an \<^verbatim>\<open>error\<close> or whose status is not
  200 is one of two: the 400 response, whose body is \<^verbatim>\<open>{error}\<close> alone, or the 500
  response, whose body has \<^verbatim>\<open>error\<close>, \<^verbatim>\<open>answer\<close>, an empty \<^verbatim>\<open>recommendedProducts\<close>
  and three fixed \<^verbatim>\<open>relatedSuggestions\<close>.
\<close>

theorem C5_failure_body_shapes:
  "error (fst (POST body w)) \<noteq> None \<or> status (fst (POST body w)) \<noteq> 200 \<Longrightarrow>
   fst (POST body w) =
     \<lparr>status = 400, error = Some (js ''Query is required''), answer = None,
      recommendedProducts = None, relatedSuggestions = None\<rparr> \<or>
   fst (POST body w) =
     \<lparr>status = 500, error = Some (js ''Failed to process query''),
      answer = Some (JStr (js ''Sorry, I encountered an error. Please try again.'')),
      recommendedProducts = Some [],
      relatedSuggestions =
        Some (JArr [JStr (js ''Try a simpler search''), JStr (js ''Contact support''),
                    JStr (js ''Browse categories'')])\<rparr>"
  using POST_cases [of body w] by (auto simp: invalid_input_def route_error_def)

theorem C5_failure_body_shapes_witness:
  "status (fst (POST (Some JNull) (no_key None))) \<noteq> 200 \<and>
   fst (POST (Some JNull) (no_key None)) =
     \<lparr>status = 500, error = Some (js ''Failed to process query''),
      answer = Some (JStr (js ''Sorry, I encountered an error. Please try again.'')),
      recommendedProducts = Some [],
      relatedSuggestions =
        Some (JArr [JStr (js ''Try a simpler search''), JStr (js ''Contact support''),
                    JStr (js ''Browse categories'')])\<rparr>"
proof -
  have h: "status (fst (POST (Some JNull) (no_key None))) = 500"
    by (simp add: POST_def route_error_def)
  have "error (fst (POST (Some JNull) (no_key None))) \<noteq> None \<or>
        status (fst (POST (Some JNull) (no_key None))) \<noteq> 200"
    using h by simp
  from C5_failure_body_shapes [OF this] h show ?thesis
    by auto
qed

text \<open>
  C5 as the specification states it fails on both failure responses: the 400 body has no
  \<^verbatim>\<open>answer\<close>, \<^verbatim>\<open>recommendedProducts\<close> or \<^verbatim>\<open>relatedSuggestions\<close>, and the
  \<^verbatim>\<open>relatedSuggestions\<close> of the 500 body is not the empty list.
\<close>

theorem C5_invalid_input_body_counterexample:
  "status (fst (POST (Some (JObj [])) (no_key None))) = 400 \<and>
   answer (fst (POST (Some (JObj [])) (no_key None))) = None \<and>
   recommendedProducts (fst (POST (Some (JObj [])) (no_key None))) = None \<and>
   relatedSuggestions (fst (POST (Some (JObj [])) (no_key None))) = None \<and>
   status (fst (POST None (no_key None))) = 500 \<and>
   relatedSuggestions (fst (POST None (no_key None))) \<noteq> Some (JArr [])"
  by (simp add: POST_def invalid_input_def route_error_def)

subsection \<open>The filters on a catalogue of products\<close>

lemma is_product_not_null: "is_product p \<Longrightarrow> p \<noteq> JNull"
  by (auto simp: is_product_def)

lemma field_includes_text:
  "is_text v \<Longrightarrow> field_includes w v (toLowerCase w q) = Inr (contains_ci w v q)"
  by (cases "(w, v, toLowerCase w q)" rule: field_includes.cases)
     (auto simp: contains_ci_def str_includes_sublist)

lemma prop_includes_product:
  "p \<noteq> JNull \<Longrightarrow> is_text (field_of p k) \<Longrightarrow>
     prop_includes w p k (toLowerCase w q) = Inr (contains_ci w (field_of p k) q)"
  by (simp add: prop_includes_def get_prop_field_of field_includes_text)


lemma matches_basic_product:
  "is_product p \<Longrightarrow>
     matches_basic w (toLowerCase w q) p = Inr (name_category_sku_matcher w q p)"
  by (auto simp: matches_basic_def name_category_sku_matcher_def or_js_def
      prop_includes_product is_product_not_null is_product_def)


lemma filter_basic_products:
  "list_all is_product ps \<Longrightarrow>
     filter_js (matches_basic w (toLowerCase w q)) ps =
       Inr (filter (name_category_sku_matcher w q) ps)"
  by (rule filter_js_pure) (simp add: list_all_iff matches_basic_product)





subsection \<open>Case-insensitive containment of ASCII texts\<close>






subsection \<open>The search without a key\<close>



subsection \<open>The path of a parsed or unparsed reply\<close>

lemma skus_include_array:
  "p \<noteq> JNull \<Longrightarrow> skus_include (JArr skus) p = Inr (sku_listed skus p)"
  by (simp add: skus_include_def get_prop_field_of sku_listed_def)

lemma map_skus_array:
  "JNull \<notin> set ps \<Longrightarrow>
     map_skus (Some (JArr skus)) (JArr ps) = Inr (take 5 (filter (sku_listed skus) ps))"
proof -
  assume "JNull \<notin> set ps"
  then have "filter_js (skus_include (JArr skus)) ps = Inr (filter (sku_listed skus) ps)"
    by (intro filter_js_pure skus_include_array) auto
  then show ?thesis by (simp add: map_skus_def)
qed

lemma sku_listed_Nil: "filter (sku_listed []) ps = []"
  by (induction ps) (auto simp: sku_listed_def split: option.splits)

lemma map_skus_unchecked:
  "absent_falsy_or_array v \<Longrightarrow> JNull \<notin> set ps \<Longrightarrow>
     map_skus v (JArr ps) = Inr (take 5 (filter (sku_listed (sku_list v)) ps))"
proof (cases v rule: absent_falsy_or_array.cases)
  case 1
  then show ?thesis by (simp add: map_skus_def sku_listed_Nil)
next
  case (2 xs)
  assume "JNull \<notin> set ps"
  then show ?thesis using 2 by (simp add: map_skus_array)
qed (auto simp: map_skus_def sku_listed_Nil)

lemma products_not_null: "list_all is_product ps \<Longrightarrow> JNull \<notin> set ps"
  by (auto simp: list_all_iff dest: is_product_not_null)

lemma build_prompt_products:
  "list_all is_product ps \<Longrightarrow> \<exists>prompt. build_prompt (Some (JStr q)) (JArr ps) = Inr prompt"
  by (rule build_prompt_total [of _ q]) (simp_all add: to_string_val_def products_not_null)

text \<open>
  With a key, a string query and a catalogue of products: when the object taken from the
  reply has a \<^verbatim>\<open>productSkus\<close> that is missing, falsy or an array, the \<^verbatim>\<open>try\<close> block
  completes.
\<close>

lemma POST_model_object:
  assumes "key_configured w"
    and "generateContent w = Some reply"
    and "get_prop b (js ''query'') = Inr (Some (JStr q))"
    and "q \<noteq> []"
    and "fetched w = JArr ps"
    and "list_all is_product ps"
    and "aiResponse w reply = JObj kvs"
    and "absent_falsy_or_array (map_of kvs (js ''productSkus''))"
    and "mapped = take 5 (filter (sku_listed (sku_list (map_of kvs (js ''productSkus'')))) ps)"
    and "recommended =
           (if mapped = [] then take 5 (filter (name_category_sku_matcher w q) ps) else mapped)"
  shows "POST (Some b) w =
           (ok (or_else (map_of kvs (js ''answer''))
                  (JStr (interest_sentence (length recommended))))
               recommended
               (or_else (map_of kvs (js ''suggestions'')) default_suggestions),
            [CatalogFetch, ModelCall])"
proof -
  have m: "map_skus (map_of kvs (js ''productSkus'')) (JArr ps) = Inr mapped"
    using assms(6,8,9) by (simp add: map_skus_unchecked products_not_null)
  have f: "basic_filtering w (Some (JStr q)) (JArr ps) mapped = Inr recommended"
    using assms(6,10) by (simp add: basic_filtering_def filter_basic_products)
  have t: "gemini_try w (Some (JStr q)) (JArr ps) reply =
           Inr (ok (or_else (map_of kvs (js ''answer''))
                      (JStr (interest_sentence (length recommended))))
                   recommended
                   (or_else (map_of kvs (js ''suggestions'')) default_suggestions))"
    using assms(7) m f by (simp add: gemini_try_def default_suggestions_def)
  obtain prompt where "build_prompt (Some (JStr q)) (JArr ps) = Inr prompt"
    using build_prompt_products [OF assms(6)] by blast
  then have "with_key w (Some (JStr q)) (JArr ps) =
             (Inr (ok (or_else (map_of kvs (js ''answer''))
                      (JStr (interest_sentence (length recommended))))
                   recommended
                   (or_else (map_of kvs (js ''suggestions'')) default_suggestions)),
              [ModelCall])"
    using assms(2) t by (simp add: with_key_def)
  then show ?thesis using assms(1,3,4,5) by (simp add: POST_def)
qed

lemma aiResponse_unparsed: "unparsed w reply \<Longrightarrow> aiResponse w reply = text_response reply"
  by (simp add: aiResponse_def unparsed_def split: option.splits)

lemma aiResponse_parsed:
  "jsonMatch reply = Some m \<Longrightarrow> JSON_parse w m = Some v \<Longrightarrow> aiResponse w reply = v"
  by (simp add: aiResponse_def)


subsection \<open>A reply of the model that cannot be parsed\<close>





subsection \<open>The fields of the fallback filters\<close>

text \<open>
  C4 at a failing input: the catalogue holds the drain pump, whose manufacturer is
  Whirlpool and whose name, category and SKU do not mention it; the query is
  \<^verbatim>\<open>whirlpool\<close>. Without a key the pump is recommended. With a key nothing is
  recommended, whether the model call fails, its reply cannot be parsed, or its reply
  \<^verbatim>\<open>{}\<close> names no SKU: these three filters do not read the manufacturer.
\<close>

theorem C4_keyed_fallbacks_skip_manufacturer:
  "recommendedProducts
     (fst (POST (ask ''whirlpool'') (no_key (Some (JArr [drain_pump]))))) =
     Some [drain_pump] \<and>
   recommendedProducts
     (fst (POST (ask ''whirlpool'') (keyed (Some (JArr [drain_pump])) None))) = Some [] \<and>
   recommendedProducts
     (fst (POST (ask ''whirlpool'') (keyed (Some (JArr [drain_pump])) (Some (js ''hello''))))) =
     Some [] \<and>
   recommendedProducts
     (fst (POST (ask ''whirlpool'') (keyed (Some (JArr [drain_pump])) (Some (js ''{}''))))) =
     Some []"
  by (simp add: handler_defs sample_defs)

subsection \<open>The suggestions\<close>

lemma route_error_related: "relatedSuggestions route_error = Some route_error_suggestions"
  by (simp add: route_error_def route_error_suggestions_def)

lemma basic_search_related:
  "basic_search w query products = Inr r \<Longrightarrow> relatedSuggestions r = Some no_key_suggestions"
  unfolding basic_search_def Let_def
  by (auto simp: ok_def no_key_suggestions_def split: sum.splits)

lemma gemini_catch_related:
  "gemini_catch w query products = Inr r \<Longrightarrow>
     relatedSuggestions r = Some model_error_suggestions"
  unfolding gemini_catch_def Let_def
  by (auto simp: ok_def model_error_suggestions_def split: sum.splits)

lemma gemini_try_related:
  "gemini_try w query products reply = Inr r \<Longrightarrow>
     relatedSuggestions r =
       Some (or_else (field_of (aiResponse w reply) (js ''suggestions'')) default_suggestions)"
  unfolding gemini_try_def Let_def
  by (cases "aiResponse w reply")
     (auto simp: ok_def default_suggestions_def field_of_def split: sum.splits prod.splits)

lemma with_key_related:
  "with_key w query products = (Inr r, calls) \<Longrightarrow>
     relatedSuggestions r = Some model_error_suggestions \<or>
     (\<exists>reply. generateContent w = Some reply \<and>
        relatedSuggestions r =
          Some (or_else (field_of (aiResponse w reply) (js ''suggestions''))
                  default_suggestions))"
  unfolding with_key_def
  by (auto split: sum.splits option.splits dest: gemini_try_related gemini_catch_related)

lemma with_key_no_reply:
  "generateContent w = None \<Longrightarrow> with_key w query products = (Inr r, calls) \<Longrightarrow>
     relatedSuggestions r = Some model_error_suggestions"
  unfolding with_key_def
  by (auto split: sum.splits dest: gemini_catch_related)

lemma fixed_pools_three:
  "s \<in> set fixed_pools \<Longrightarrow> \<exists>x y z. s = JArr [JStr x, JStr y, JStr z]"
  by (auto simp: fixed_pools_def default_suggestions_def model_error_suggestions_def
      no_key_suggestions_def route_error_suggestions_def)

lemma POST_related_500:
  "status (fst (POST body w)) = 500 \<Longrightarrow>
     relatedSuggestions (fst (POST body w)) = Some route_error_suggestions"
  using POST_cases [of body w]
  by (auto simp: invalid_input_def route_error_related)

lemma POST_related_None:
  "(relatedSuggestions (fst (POST body w)) = None) = (fst (POST body w) = invalid_input)"
proof
  assume n: "relatedSuggestions (fst (POST body w)) = None"
  have k: "\<And>q r c. with_key w q (fetched w) = (Inr r, c) \<Longrightarrow> relatedSuggestions r \<noteq> None"
    using with_key_related by fastforce
  show "fst (POST body w) = invalid_input"
    using n unfolding POST_def Let_def
    by (auto simp: route_error_related split: option.splits sum.splits prod.splits if_splits
        dest: k basic_search_related)
next
  assume "fst (POST body w) = invalid_input"
  then show "relatedSuggestions (fst (POST body w)) = None"
    by (simp add: invalid_input_def)
qed

lemma POST_related_no_key:
  "status (fst (POST body w)) = 200 \<Longrightarrow> \<not> key_configured w \<Longrightarrow>
     relatedSuggestions (fst (POST body w)) = Some no_key_suggestions"
  unfolding POST_def Let_def
  by (auto simp: route_error_def invalid_input_def
      split: option.splits sum.splits if_splits dest: basic_search_related)

lemma POST_related_key:
  "status (fst (POST body w)) = 200 \<Longrightarrow> key_configured w \<Longrightarrow>
     \<exists>q calls. with_key w q (fetched w) = (Inr (fst (POST body w)), calls)"
  unfolding POST_def Let_def
  by (auto simp: route_error_def invalid_input_def
      split: option.splits sum.splits if_splits prod.splits)

text \<open>
  C7, as the source has it. The 400 response, and it alone, has no \<^verbatim>\<open>relatedSuggestions\<close>.
  The 500 response carries the fixed array of the outer \<^verbatim>\<open>catch\<close>; a 200 response without
  a key carries the fixed array of that branch; with a key, a 200 response carries the
  fixed array of the model-error branch when the model call failed, and otherwise either
  that array or \<^verbatim>\<open>aiResponse.suggestions || default\<close>. Where the \<^verbatim>\<open>try\<close> block completes
  (a string query, a catalogue of products, a parsed object whose \<^verbatim>\<open>productSkus\<close> is
  missing, falsy or an array) the value is that object's \<^verbatim>\<open>suggestions\<close> when truthy,
  passed on unchanged whatever its length and type, and the fixed default array otherwise;
  it is the empty list when the reply is unparsed. Each of the four fixed arrays holds
  exactly three strings.
\<close>

theorem C7_suggestions_by_path:
  "((relatedSuggestions (fst (POST body w)) = None) = (fst (POST body w) = invalid_input)) \<and>
   (status (fst (POST body w)) = 500 \<longrightarrow>
      relatedSuggestions (fst (POST body w)) = Some route_error_suggestions) \<and>
   (status (fst (POST body w)) = 200 \<and> \<not> key_configured w \<longrightarrow>
      relatedSuggestions (fst (POST body w)) = Some no_key_suggestions) \<and>
   (status (fst (POST body w)) = 200 \<and> key_configured w \<and> generateContent w = None \<longrightarrow>
      relatedSuggestions (fst (POST body w)) = Some model_error_suggestions) \<and>
   (status (fst (POST body w)) = 200 \<and> key_configured w \<and> generateContent w = Some reply \<longrightarrow>
      relatedSuggestions (fst (POST body w)) = Some model_error_suggestions \<or>
      relatedSuggestions (fst (POST body w)) =
        Some (or_else (field_of (aiResponse w reply) (js ''suggestions''))
                default_suggestions)) \<and>
   (key_configured w \<and> generateContent w = Some reply \<and> string_query_over_products w body \<and>
    aiResponse w reply = JObj kvs \<and> absent_falsy_or_array (map_of kvs (js ''productSkus'')) \<longrightarrow>
      relatedSuggestions (fst (POST body w)) =
        Some (or_else (map_of kvs (js ''suggestions'')) default_suggestions)) \<and>
   (key_configured w \<and> generateContent w = Some reply \<and> string_query_over_products w body \<and>
    unparsed w reply \<longrightarrow>
      relatedSuggestions (fst (POST body w)) = Some (JArr [])) \<and>
   (\<forall>s \<in> set fixed_pools. \<exists>x y z. s = JArr [JStr x, JStr y, JStr z])"
proof (intro conjI impI ballI)
  show "(relatedSuggestions (fst (POST body w)) = None) = (fst (POST body w) = invalid_input)"
    by (rule POST_related_None)
next
  assume "status (fst (POST body w)) = 500"
  then show "relatedSuggestions (fst (POST body w)) = Some route_error_suggestions"
    by (rule POST_related_500)
next
  assume "status (fst (POST body w)) = 200 \<and> \<not> key_configured w"
  then show "relatedSuggestions (fst (POST body w)) = Some no_key_suggestions"
    by (simp add: POST_related_no_key)
next
  assume h: "status (fst (POST body w)) = 200 \<and> key_configured w \<and> generateContent w = None"
  then obtain q calls where "with_key w q (fetched w) = (Inr (fst (POST body w)), calls)"
    using POST_related_key by blast
  then show "relatedSuggestions (fst (POST body w)) = Some model_error_suggestions"
    using h with_key_no_reply by blast
next
  assume h: "status (fst (POST body w)) = 200 \<and> key_configured w \<and>
             generateContent w = Some reply"
  then obtain q calls where "with_key w q (fetched w) = (Inr (fst (POST body w)), calls)"
    using POST_related_key by blast
  from with_key_related [OF this] h
  show "relatedSuggestions (fst (POST body w)) = Some model_error_suggestions \<or>
      relatedSuggestions (fst (POST body w)) =
        Some (or_else (field_of (aiResponse w reply) (js ''suggestions''))
                default_suggestions)"
    by auto
next
  assume h: "key_configured w \<and> generateContent w = Some reply \<and>
     string_query_over_products w body \<and> aiResponse w reply = JObj kvs \<and>
     absent_falsy_or_array (map_of kvs (js ''productSkus''))"
  then obtain b q ps where b: "body = Some b"
    and r: "get_prop b (js ''query'') = Inr (Some (JStr q))" "q \<noteq> []" "fetched w = JArr ps"
       "list_all is_product ps"
    by (auto simp: string_query_over_products_def)
  from h have k: "key_configured w" and g: "generateContent w = Some reply"
    and ai: "aiResponse w reply = JObj kvs"
    and s: "absent_falsy_or_array (map_of kvs (js ''productSkus''))"
    by simp_all
  show "relatedSuggestions (fst (POST body w)) =
        Some (or_else (map_of kvs (js ''suggestions'')) default_suggestions)"
    unfolding b POST_model_object [OF k g r ai s refl refl]
    by (simp add: ok_def)
next
  assume h: "key_configured w \<and> generateContent w = Some reply \<and>
     string_query_over_products w body \<and> unparsed w reply"
  then obtain b q ps where b: "body = Some b"
    and r: "get_prop b (js ''query'') = Inr (Some (JStr q))" "q \<noteq> []" "fetched w = JArr ps"
       "list_all is_product ps"
    by (auto simp: string_query_over_products_def)
  from h have k: "key_configured w" and g: "generateContent w = Some reply"
    and u: "unparsed w reply"
    by simp_all
  have ai: "aiResponse w reply =
            JObj [(js ''answer'', JStr (take 500 reply)), (js ''productSkus'', JArr []),
                  (js ''suggestions'', JArr [])]"
    using u by (simp add: aiResponse_unparsed text_response_def)
  have s: "absent_falsy_or_array
             (map_of [(js ''answer'', JStr (take 500 reply)), (js ''productSkus'', JArr []),
                      (js ''suggestions'', JArr [])] (js ''productSkus''))"
    by (simp add: js_def)
  show "relatedSuggestions (fst (POST body w)) = Some (JArr [])"
    unfolding b POST_model_object [OF k g r ai s refl refl]
    by (simp add: ok_def or_else_def js_def)
next
  fix s assume "s \<in> set fixed_pools"
  then show "\<exists>x y z. s = JArr [JStr x, JStr y, JStr z]"
    by (rule fixed_pools_three)
qed

text \<open>
  The reply with four suggestions: all four are passed on. An unparsed reply, the 500
  response, the search without a key and a failed model call give what their paths fix.
\<close>

theorem C7_suggestions_by_path_witness:
  "relatedSuggestions
     (fst (POST (ask ''pump'') (keyed (Some (JArr pumps)) (Some four_reply)))) =
     Some (JArr [JStr (js ''a''), JStr (js ''b''), JStr (js ''c''), JStr (js ''d'')]) \<and>
   relatedSuggestions
     (fst (POST (ask ''pump'') (keyed (Some (JArr pumps)) (Some (js ''Sorry.''))))) =
     Some (JArr []) \<and>
   relatedSuggestions (fst (POST None (no_key None))) = Some route_error_suggestions \<and>
   relatedSuggestions (fst (POST (ask ''pump'') (no_key (Some (JArr pumps))))) =
     Some no_key_suggestions \<and>
   relatedSuggestions (fst (POST (ask ''pump'') (keyed (Some (JArr pumps)) None))) =
     Some model_error_suggestions"
proof -
  let ?n = "no_key (Some (JArr pumps))"
  let ?f = "keyed (Some (JArr pumps)) None"
  have h3: "status (fst (POST None (no_key None))) = 500"
    by (simp add: POST_def route_error_def)
  have h4: "status (fst (POST (ask ''pump'') ?n)) = 200 \<and> \<not> key_configured ?n"
    by (simp add: handler_defs sample_defs)
  have h5: "status (fst (POST (ask ''pump'') ?f)) = 200 \<and> key_configured ?f \<and>
            generateContent ?f = None"
    by (simp add: handler_defs sample_defs)
  have c3: "relatedSuggestions (fst (POST None (no_key None))) = Some route_error_suggestions"
    using C7_suggestions_by_path [of None "no_key None"] h3 by blast
  have c4: "relatedSuggestions (fst (POST (ask ''pump'') ?n)) = Some no_key_suggestions"
    using C7_suggestions_by_path [of "ask ''pump''" ?n] h4 by blast
  have c5: "relatedSuggestions (fst (POST (ask ''pump'') ?f)) = Some model_error_suggestions"
    using C7_suggestions_by_path [of "ask ''pump''" ?f] h5 by blast
  let ?kvs = "[(js ''suggestions'',
                JArr [JStr (js ''a''), JStr (js ''b''), JStr (js ''c''), JStr (js ''d'')])]"
  let ?w = "keyed (Some (JArr pumps)) (Some four_reply)"
  let ?v = "keyed (Some (JArr pumps)) (Some (js ''Sorry.''))"
  have p: "list_all is_product pumps"
    by (simp add: pumps_def drain_pump_def water_filter_def is_product_def field_of_def js_def)
  have h1: "key_configured ?w \<and> generateContent ?w = Some four_reply \<and>
            string_query_over_products ?w (ask ''pump'') \<and>
            aiResponse ?w four_reply = JObj ?kvs \<and>
            absent_falsy_or_array (map_of ?kvs (js ''productSkus''))"
    using p
    by (simp add: key_configured_def keyed_def string_query_over_products_def ask_def
        fetched_def aiResponse_def jsonMatch_def four_reply_def sample_parse_def sku_match_def
        js_def)
  have h2: "key_configured ?v \<and> generateContent ?v = Some (js ''Sorry.'') \<and>
            string_query_over_products ?v (ask ''pump'') \<and> unparsed ?v (js ''Sorry.'')"
    using p
    by (simp add: key_configured_def keyed_def string_query_over_products_def ask_def
        fetched_def unparsed_def jsonMatch_def js_def)
  show ?thesis
    using C7_suggestions_by_path [of "ask ''pump''" ?w four_reply ?kvs] h1
          C7_suggestions_by_path [of "ask ''pump''" ?v "js ''Sorry.''"] h2 c3 c4 c5
    by (simp add: or_else_def js_def)
qed

text \<open>
  C7 as the specification states it fails: the reply \<^verbatim>\<open>hello\<close> gives an empty
  \<^verbatim>\<open>relatedSuggestions\<close>, the reply with four suggestions gives four, and the 400 response
  has no such field.
\<close>

theorem C7_three_suggestions_counterexample:
  "relatedSuggestions
     (fst (POST (ask ''pump'') (keyed (Some (JArr pumps)) (Some (js ''hello''))))) =
     Some (JArr []) \<and>
   relatedSuggestions
     (fst (POST (ask ''filter'') (keyed (Some (JArr pumps)) (Some four_reply)))) =
     Some (JArr [JStr (js ''a''), JStr (js ''b''), JStr (js ''c''), JStr (js ''d'')]) \<and>
   relatedSuggestions
     (fst (POST (Some (JObj [])) (keyed (Some (JArr pumps)) (Some (js ''hello''))))) = None"
  by (simp add: handler_defs sample_defs)

subsection \<open>Mapping SKUs to products\<close>

lemma skus_include_null: "skus_include v JNull = Inl TypeError"
  by (simp add: skus_include_def)

lemma filter_js_null:
  "JNull \<in> set ps \<Longrightarrow> filter_js (skus_include (JArr skus)) ps = Inl TypeError"
proof (induction ps)
  case Nil
  then show ?case by simp
next
  case (Cons p ps)
  show ?case
  proof (cases "p = JNull")
    case True
    then show ?thesis by (simp add: skus_include_null)
  next
    case False
    then have "JNull \<in> set ps" using Cons.prems by auto
    then show ?thesis using Cons.IH False by (simp add: skus_include_array)
  qed
qed

lemma map_skus_null:
  "JNull \<in> set ps \<Longrightarrow> map_skus (Some (JArr skus)) (JArr ps) = Inl TypeError"
  by (simp add: map_skus_def filter_js_null)

lemma sku_listed_not_null: "sku_listed skus p \<Longrightarrow> p \<noteq> JNull"
  by (auto simp: sku_listed_def field_of_def)

lemma filter_take_filter: "filter P (take n (filter P xs)) = take n (filter P xs)"
  by (rule filter_True) (auto dest: in_set_takeD)

lemma mapped_not_null: "JNull \<notin> set (take n (filter (sku_listed skus) ps))"
proof
  assume "JNull \<in> set (take n (filter (sku_listed skus) ps))"
  then have "JNull \<in> set (filter (sku_listed skus) ps)" by (rule in_set_takeD)
  then have "sku_listed skus JNull" by simp
  then show False by (simp add: sku_listed_def field_of_def)
qed

lemma basic_filtering_mapped: "ms \<noteq> [] \<Longrightarrow> basic_filtering w query products ms = Inr ms"
  by (simp add: basic_filtering_def)

lemma POST_mapped_skus:
  assumes "key_configured w" and "generateContent w = Some reply"
    and "get_prop (aiResponse w reply) (js ''productSkus'') = Inr (Some (JArr skus))"
    and "get_prop b (js ''query'') = Inr query" and "truthy query"
    and "to_string_val query = Inr t"
    and "fetched w = JArr ps" and "JNull \<notin> set ps"
    and "take 5 (filter (sku_listed skus) ps) \<noteq> []"
  shows "recommendedProducts (fst (POST (Some b) w)) =
           Some (take 5 (filter (sku_listed skus) ps))"
proof -
  let ?ms = "take 5 (filter (sku_listed skus) ps)"
  have "aiResponse w reply \<noteq> JNull" using assms(3) by auto
  then obtain a s where as: "get_prop (aiResponse w reply) (js ''answer'') = Inr a"
     "get_prop (aiResponse w reply) (js ''suggestions'') = Inr s"
    by (simp add: get_prop_field_of)
  have m: "map_skus (Some (JArr skus)) (JArr ps) = Inr ?ms"
    using assms(8) by (rule map_skus_array)
  have f: "basic_filtering w query (JArr ps) ?ms = Inr ?ms"
    using assms(9) by (rule basic_filtering_mapped)
  have "\<exists>r. gemini_try w query (JArr ps) reply = Inr r \<and> recommendedProducts r = Some ?ms"
    by (simp add: gemini_try_def assms(3) as m f ok_def)
  then obtain r where r: "gemini_try w query (JArr ps) reply = Inr r"
    "recommendedProducts r = Some ?ms" by blast
  obtain prompt where "build_prompt query (JArr ps) = Inr prompt"
    using build_prompt_total [OF assms(6,8)] by blast
  then have "with_key w query (JArr ps) = (Inr r, [ModelCall])"
    using assms(2) r(1) by (simp add: with_key_def)
  then show ?thesis using assms(1,4,5,7) r(2) by (simp add: POST_def)
qed

text \<open>
  C9. Mapping an array of SKUs over a collection gives the products whose SKU is in the
  array, in the order of the collection, cut after the fifth: a function of the array and
  the collection alone (it throws only on a collection with a \<^verbatim>\<open>null\<close> element). Mapping
  the same array over the result gives the result again. In the handler, when the object
  taken from the model's reply has the array as its \<^verbatim>\<open>productSkus\<close> and the mapping is not
  empty, \<^verbatim>\<open>recommendedProducts\<close> is the mapping, whatever the query and the rest of the
  reply are.
\<close>

theorem C9_sku_mapping_idempotent:
  "let mapped = take 5 (filter (sku_listed skus) products) in
     map_skus (Some (JArr skus)) (JArr products) =
       (if JNull \<in> set products then Inl TypeError else Inr mapped) \<and>
     map_skus (Some (JArr skus)) (JArr mapped) = Inr mapped \<and>
     (fetched w = JArr products \<and> JNull \<notin> set products \<and> key_configured w \<and>
      generateContent w = Some reply \<and>
      get_prop (aiResponse w reply) (js ''productSkus'') = Inr (Some (JArr skus)) \<and>
      get_prop b (js ''query'') = Inr query \<and> truthy query \<and> to_string_val query = Inr t \<and>
      mapped \<noteq> [] \<longrightarrow>
      recommendedProducts (fst (POST (Some b) w)) = Some mapped)"
  unfolding Let_def
proof (intro conjI impI)
  show "map_skus (Some (JArr skus)) (JArr products) =
        (if JNull \<in> set products then Inl TypeError
         else Inr (take 5 (filter (sku_listed skus) products)))"
    by (simp add: map_skus_null map_skus_array)
  show "map_skus (Some (JArr skus)) (JArr (take 5 (filter (sku_listed skus) products))) =
        Inr (take 5 (filter (sku_listed skus) products))"
    using map_skus_array [OF mapped_not_null, of skus 5 skus products]
    by (simp add: filter_take_filter)
next
  assume "fetched w = JArr products \<and> JNull \<notin> set products \<and> key_configured w \<and>
      generateContent w = Some reply \<and>
      get_prop (aiResponse w reply) (js ''productSkus'') = Inr (Some (JArr skus)) \<and>
      get_prop b (js ''query'') = Inr query \<and> truthy query \<and> to_string_val query = Inr t \<and>
      take 5 (filter (sku_listed skus) products) \<noteq> []"
  then show "recommendedProducts (fst (POST (Some b) w)) =
        Some (take 5 (filter (sku_listed skus) products))"
    using POST_mapped_skus [of w reply skus b query t products] by blast
qed

theorem C9_sku_mapping_idempotent_witness:
  "map_skus (Some (JArr [JStr (js ''GE-7'')])) (JArr pumps) = Inr [water_filter] \<and>
   map_skus (Some (JArr [JStr (js ''GE-7'')])) (JArr [water_filter]) = Inr [water_filter] \<and>
   recommendedProducts
     (fst (POST (ask ''pump'') (keyed (Some (JArr pumps)) (Some sku_reply)))) =
     Some [water_filter]"
proof -
  let ?w = "keyed (Some (JArr pumps)) (Some sku_reply)"
  have m: "filter (sku_listed [JStr (js ''GE-7'')]) pumps = [water_filter]"
    by (simp add: sku_listed_def field_of_def pumps_def drain_pump_def water_filter_def js_def)
  have n: "JNull \<notin> set pumps"
    by (simp add: pumps_def drain_pump_def water_filter_def)
  have h: "fetched ?w = JArr pumps \<and> key_configured ?w \<and>
      generateContent ?w = Some sku_reply \<and>
      get_prop (aiResponse ?w sku_reply) (js ''productSkus'') =
        Inr (Some (JArr [JStr (js ''GE-7'')])) \<and>
      get_prop (JObj [(js ''query'', JStr (js ''pump''))]) (js ''query'') =
        Inr (Some (JStr (js ''pump''))) \<and>
      truthy (Some (JStr (js ''pump''))) \<and>
      to_string_val (Some (JStr (js ''pump''))) = Inr (js ''pump'')"
    by (simp add: fetched_def key_configured_def keyed_def aiResponse_def jsonMatch_def
        sku_reply_def sku_match_def sample_parse_def to_string_val_def js_def)
  show ?thesis
    using C9_sku_mapping_idempotent
            [of "[JStr (js ''GE-7'')]" pumps ?w sku_reply
                "JObj [(js ''query'', JStr (js ''pump''))]" "Some (JStr (js ''pump''))"
                "js ''pump''"]
          m n h
    by (simp add: Let_def ask_def)
qed

subsection \<open>What is cut out of the model's reply\<close>

lemma jsonMatch_SomeD:
  assumes "jsonMatch reply = Some m"
  shows "\<exists>pre body post. reply = pre @ m @ post \<and> m = 123 # body @ [125] \<and>
           123 \<notin> set pre \<and> 125 \<notin> set post"
proof -
  let ?open = "\<lambda>c::nat. c \<noteq> 123" and ?close = "\<lambda>c::nat. c \<noteq> 125"
  let ?t = "dropWhile ?open reply"
  let ?pre = "takeWhile ?open reply"
  let ?post = "rev (takeWhile ?close (rev ?t))"
  have m: "m = rev (dropWhile ?close (rev ?t))" and ne: "m \<noteq> []"
    using assms by (auto simp: jsonMatch_def Let_def split: if_splits)
  have t: "?t = m @ ?post"
  proof -
    have "?t = rev (takeWhile ?close (rev ?t) @ dropWhile ?close (rev ?t))"
      by (simp only: takeWhile_dropWhile_id rev_rev_ident)
    then show ?thesis by (simp only: rev_append m)
  qed
  have reply: "reply = ?pre @ m @ ?post"
    using t takeWhile_dropWhile_id [of ?open reply] by simp
  have pre: "123 \<notin> set ?pre" by (auto dest: set_takeWhileD)
  have post: "125 \<notin> set ?post" by (auto dest: set_takeWhileD)
  have "?t \<noteq> []" using t ne by (metis Nil_is_append_conv)
  then have "hd ?t = 123" using hd_dropWhile [of ?open reply] by simp
  then have hd: "hd m = 123" using t ne by (metis hd_append2)
  have "dropWhile ?close (rev ?t) \<noteq> []" using m ne by simp
  then have "hd (dropWhile ?close (rev ?t)) = 125"
    using hd_dropWhile [of ?close "rev ?t"] by simp
  then have last: "last m = 125" using m ne by (simp add: last_rev)
  obtain c cs where cs: "m = c # cs" using ne by (cases m) auto
  then have c: "c = 123" using hd by simp
  have "cs \<noteq> []" using cs c last by auto
  then obtain body d where d: "cs = body @ [d]" by (metis rev_exhaust)
  then have "d = 125" using cs last by simp
  then have "m = 123 # body @ [125]" using cs c d by simp
  then show ?thesis using reply pre post by blast
qed

lemma jsonMatch_SomeI:
  assumes "123 \<notin> set pre" and "125 \<notin> set post"
  shows "jsonMatch (pre @ (123 # body @ [125]) @ post) = Some (123 # body @ [125])"
proof -
  let ?open = "\<lambda>c::nat. c \<noteq> 123" and ?close = "\<lambda>c::nat. c \<noteq> 125"
  have pre: "\<And>x. x \<in> set pre \<Longrightarrow> x \<noteq> 123"
    and post: "\<And>x. x \<in> set (rev post) \<Longrightarrow> x \<noteq> 125"
    using assms by auto
  have t: "dropWhile ?open (pre @ (123 # body @ [125]) @ post) = 123 # body @ [125] @ post"
    using dropWhile_append2 [of pre ?open, OF pre] by simp
  have "rev (123 # body @ [125] @ post) = rev post @ 125 # rev body @ [123]"
    by simp
  moreover have "dropWhile ?close (rev post @ 125 # rev body @ [123]) = 125 # rev body @ [123]"
    using dropWhile_append2 [of "rev post" ?close, OF post] by simp
  ultimately have "rev (dropWhile ?close (rev (123 # body @ [125] @ post))) =
                   123 # body @ [125]"
    by simp
  then show ?thesis unfolding jsonMatch_def Let_def t by simp
qed

lemma jsonMatch_iff:
  "(jsonMatch reply = Some m) =
     (\<exists>pre body post. reply = pre @ m @ post \<and> m = 123 # body @ [125] \<and>
        123 \<notin> set pre \<and> 125 \<notin> set post)"
proof
  assume "jsonMatch reply = Some m"
  then show "\<exists>pre body post. reply = pre @ m @ post \<and> m = 123 # body @ [125] \<and>
        123 \<notin> set pre \<and> 125 \<notin> set post"
    by (rule jsonMatch_SomeD)
next
  assume "\<exists>pre body post. reply = pre @ m @ post \<and> m = 123 # body @ [125] \<and>
        123 \<notin> set pre \<and> 125 \<notin> set post"
  then obtain pre body post where "reply = pre @ m @ post" "m = 123 # body @ [125]"
     "123 \<notin> set pre" "125 \<notin> set post" by blast
  then show "jsonMatch reply = Some m"
    using jsonMatch_SomeI [of pre post body] by simp
qed

lemma POST_parse_at_match:
  assumes "generateContent w = Some reply" and "jsonMatch reply = Some m"
    and "f m = JSON_parse w m"
  shows "POST body (w\<lparr>JSON_parse := f\<rparr>) = POST body w"
proof -
  have a: "aiResponse (w\<lparr>JSON_parse := f\<rparr>) reply = aiResponse w reply"
    using assms by (simp add: aiResponse_def)
  have l: "\<And>v q. field_includes (w\<lparr>JSON_parse := f\<rparr>) v q = field_includes w v q"
  proof -
    fix v q show "field_includes (w\<lparr>JSON_parse := f\<rparr>) v q = field_includes w v q"
      by (cases "(w, v, q)" rule: field_includes.cases) simp_all
  qed
  have pi: "\<And>p k q. prop_includes (w\<lparr>JSON_parse := f\<rparr>) p k q = prop_includes w p k q"
    by (simp add: prop_includes_def l split: sum.splits)
  have b: "\<And>q. matches_basic (w\<lparr>JSON_parse := f\<rparr>) q = matches_basic w q"
    by (simp add: fun_eq_iff matches_basic_def pi)
  have ql: "\<And>q. queryLower (w\<lparr>JSON_parse := f\<rparr>) q = queryLower w q"
  proof -
    fix q show "queryLower (w\<lparr>JSON_parse := f\<rparr>) q = queryLower w q"
      by (cases "(w, q)" rule: queryLower.cases) simp_all
  qed
  have c: "\<And>q ps. gemini_catch (w\<lparr>JSON_parse := f\<rparr>) q ps = gemini_catch w q ps"
    by (simp add: gemini_catch_def b ql cong: sum.case_cong)
  have bf: "\<And>q ps r. basic_filtering (w\<lparr>JSON_parse := f\<rparr>) q ps r = basic_filtering w q ps r"
    by (simp add: basic_filtering_def b ql cong: sum.case_cong)
  have t: "\<And>q ps. gemini_try (w\<lparr>JSON_parse := f\<rparr>) q ps reply = gemini_try w q ps reply"
    by (simp add: gemini_try_def a bf cong: sum.case_cong)
  have k: "\<And>q ps. with_key (w\<lparr>JSON_parse := f\<rparr>) q ps = with_key w q ps"
    using assms(1) by (simp add: with_key_def c t cong: sum.case_cong)
  have n: "\<And>q. matches_nokey (w\<lparr>JSON_parse := f\<rparr>) q = matches_nokey w q"
    by (simp add: fun_eq_iff matches_nokey_def pi)
  have s: "\<And>q ps. basic_search (w\<lparr>JSON_parse := f\<rparr>) q ps = basic_search w q ps"
    by (simp add: basic_search_def n ql cong: sum.case_cong)
  show ?thesis
    by (simp add: POST_def key_configured_def fetched_def k s
        cong: sum.case_cong option.case_cong if_cong)
qed

text \<open>
  C6, as the source has it. The pattern matches from the first opening brace of the reply
  to its last closing brace: \<open>m\<close> is the match exactly when the reply is \<open>pre @ m @ post\<close>
  with no opening brace in \<open>pre\<close>, no closing brace in \<open>post\<close>, and \<open>m\<close> opening and
  closing with a brace. Whether the braces in between balance plays no part. That match is
  what the handler parses: the object it goes on with is \<^verbatim>\<open>JSON.parse\<close> of the match, or
  the plain-text object when there is no match or the parse throws, and the response
  depends on \<^verbatim>\<open>JSON.parse\<close> through its value at the match alone. When the match
  parses to an object (whose \<^verbatim>\<open>productSkus\<close> is missing, falsy or an array, the query
  being a non-empty string and the catalogue one of products), the response is made of that
  object: its \<^verbatim>\<open>answer\<close> and \<^verbatim>\<open>suggestions\<close> when truthy, after the catalogue fetch
  and the model call.
\<close>

theorem C6_match_first_open_to_last_close:
  "((jsonMatch reply = Some m) =
      (\<exists>pre body post. reply = pre @ m @ post \<and> m = 123 # body @ [125] \<and>
         123 \<notin> set pre \<and> 125 \<notin> set post)) \<and>
   (reply = pre @ (123 # body @ [125]) @ post \<and> 123 \<notin> set pre \<and> 125 \<notin> set post \<longrightarrow>
      aiResponse w reply =
        (case JSON_parse w (123 # body @ [125]) of
           None \<Rightarrow> text_response reply
         | Some v \<Rightarrow> v)) \<and>
   (jsonMatch reply = None \<longrightarrow> aiResponse w reply = text_response reply) \<and>
   (generateContent w = Some reply \<and> jsonMatch reply = Some m \<and> f m = JSON_parse w m \<longrightarrow>
      POST request (w\<lparr>JSON_parse := f\<rparr>) = POST request w) \<and>
   (key_configured w \<and> generateContent w = Some reply \<and>
    string_query_over_products w request \<and> jsonMatch reply = Some m \<and>
    JSON_parse w m = Some (JObj kvs) \<and>
    absent_falsy_or_array (map_of kvs (js ''productSkus'')) \<longrightarrow>
      (\<exists>recommended.
         POST request w =
           (ok (or_else (map_of kvs (js ''answer''))
                  (JStr (interest_sentence (length recommended))))
               recommended
               (or_else (map_of kvs (js ''suggestions'')) default_suggestions),
            [CatalogFetch, ModelCall])))"
proof (intro conjI impI)
  show "(jsonMatch reply = Some m) =
      (\<exists>pre body post. reply = pre @ m @ post \<and> m = 123 # body @ [125] \<and>
         123 \<notin> set pre \<and> 125 \<notin> set post)"
    by (rule jsonMatch_iff)
next
  assume "reply = pre @ (123 # body @ [125]) @ post \<and> 123 \<notin> set pre \<and> 125 \<notin> set post"
  then have "jsonMatch reply = Some (123 # body @ [125])"
    using jsonMatch_SomeI [of pre post body] by simp
  then show "aiResponse w reply =
        (case JSON_parse w (123 # body @ [125]) of
           None \<Rightarrow> text_response reply
         | Some v \<Rightarrow> v)"
    by (simp add: aiResponse_def)
next
  assume "jsonMatch reply = None"
  then show "aiResponse w reply = text_response reply"
    by (simp add: aiResponse_def)
next
  assume "generateContent w = Some reply \<and> jsonMatch reply = Some m \<and> f m = JSON_parse w m"
  then show "POST request (w\<lparr>JSON_parse := f\<rparr>) = POST request w"
    using POST_parse_at_match [of w reply m f request] by blast
next
  assume h: "key_configured w \<and> generateContent w = Some reply \<and>
    string_query_over_products w request \<and> jsonMatch reply = Some m \<and>
    JSON_parse w m = Some (JObj kvs) \<and>
    absent_falsy_or_array (map_of kvs (js ''productSkus''))"
  then obtain b q ps where b: "request = Some b"
    and r: "get_prop b (js ''query'') = Inr (Some (JStr q))" "q \<noteq> []" "fetched w = JArr ps"
       "list_all is_product ps"
    by (auto simp: string_query_over_products_def)
  from h have k: "key_configured w" and g: "generateContent w = Some reply"
    and ai: "aiResponse w reply = JObj kvs"
    and s: "absent_falsy_or_array (map_of kvs (js ''productSkus''))"
    by (simp_all add: aiResponse_parsed)
  show "\<exists>recommended.
         POST request w =
           (ok (or_else (map_of kvs (js ''answer''))
                  (JStr (interest_sentence (length recommended))))
               recommended
               (or_else (map_of kvs (js ''suggestions'')) default_suggestions),
            [CatalogFetch, ModelCall])"
    unfolding b using POST_model_object [OF k g r ai s refl refl] by blast
qed

theorem C6_match_first_open_to_last_close_witness:
  "jsonMatch sku_reply = Some sku_match \<and>
   aiResponse (keyed None (Some sku_reply)) sku_reply =
     JObj [(js ''productSkus'', JArr [JStr (js ''GE-7'')])] \<and>
   aiResponse (keyed None (Some (js ''hello''))) (js ''hello'') = text_response (js ''hello'') \<and>
   POST (ask ''pump'') ((keyed (Some (JArr pumps)) (Some sku_reply))\<lparr>JSON_parse := narrow_parse\<rparr>) =
     POST (ask ''pump'') (keyed (Some (JArr pumps)) (Some sku_reply)) \<and>
   jsonMatch wrapped_reply = Some four_reply \<and>
   relatedSuggestions
     (fst (POST (ask ''pump'') (keyed (Some (JArr pumps)) (Some wrapped_reply)))) =
     Some (JArr [JStr (js ''a''), JStr (js ''b''), JStr (js ''c''), JStr (js ''d'')]) \<and>
   snd (POST (ask ''pump'') (keyed (Some (JArr pumps)) (Some wrapped_reply))) =
     [CatalogFetch, ModelCall]"
proof -
  let ?u = "keyed (Some (JArr pumps)) (Some wrapped_reply)"
  let ?kvs = "[(js ''suggestions'',
                JArr [JStr (js ''a''), JStr (js ''b''), JStr (js ''c''), JStr (js ''d'')])]"
  obtain inner where inner: "four_reply = 123 # inner @ [125]"
    by (simp add: four_reply_def js_def)
  have "wrapped_reply = js ''Here you go: '' @ four_reply @ js '' Anything else?'' \<and>
        four_reply = 123 # inner @ [125] \<and> 123 \<notin> set (js ''Here you go: '') \<and>
        125 \<notin> set (js '' Anything else?'')"
    using inner by (simp add: wrapped_reply_def js_def)
  then have "\<exists>pre body post. wrapped_reply = pre @ four_reply @ post \<and>
               four_reply = 123 # body @ [125] \<and> 123 \<notin> set pre \<and> 125 \<notin> set post"
    by blast
  then have wm: "jsonMatch wrapped_reply = Some four_reply"
    using C6_match_first_open_to_last_close [of wrapped_reply four_reply] by blast
  have pr: "list_all is_product pumps"
    by (simp add: pumps_def drain_pump_def water_filter_def is_product_def field_of_def js_def)
  have hu: "key_configured ?u \<and> generateContent ?u = Some wrapped_reply \<and>
            string_query_over_products ?u (ask ''pump'') \<and>
            JSON_parse ?u four_reply = Some (JObj ?kvs) \<and>
            absent_falsy_or_array (map_of ?kvs (js ''productSkus''))"
    using pr
    by (simp add: key_configured_def keyed_def string_query_over_products_def ask_def
        fetched_def four_reply_def sample_parse_def sku_match_def js_def)
  have "\<exists>recommended.
         POST (ask ''pump'') ?u =
           (ok (or_else (map_of ?kvs (js ''answer''))
                  (JStr (interest_sentence (length recommended))))
               recommended
               (or_else (map_of ?kvs (js ''suggestions'')) default_suggestions),
            [CatalogFetch, ModelCall])"
    using C6_match_first_open_to_last_close
            [of wrapped_reply four_reply _ _ _ ?u _ "ask ''pump''" ?kvs] wm hu
    by blast
  then have wr: "relatedSuggestions (fst (POST (ask ''pump'') ?u)) =
        Some (JArr [JStr (js ''a''), JStr (js ''b''), JStr (js ''c''), JStr (js ''d'')]) \<and>
      snd (POST (ask ''pump'') ?u) = [CatalogFetch, ModelCall]"
    by (auto simp: ok_def or_else_def js_def)
  let ?w = "keyed None (Some sku_reply)"
  let ?v = "keyed (Some (JArr pumps)) (Some sku_reply)"
  obtain body where body: "sku_match = 123 # body @ [125]"
    by (simp add: sku_match_def js_def)
  have d: "sku_reply = js ''Sure: '' @ (123 # body @ [125]) @ [] \<and>
           123 \<notin> set (js ''Sure: '') \<and> 125 \<notin> set []"
    by (simp add: sku_reply_def body js_def)
  then have e: "\<exists>pre body post. sku_reply = pre @ sku_match @ post \<and>
                  sku_match = 123 # body @ [125] \<and> 123 \<notin> set pre \<and> 125 \<notin> set post"
    using body by (metis append_Nil2)
  have m: "jsonMatch sku_reply = Some sku_match"
    using C6_match_first_open_to_last_close [of sku_reply sku_match] e by blast
  have a: "aiResponse ?w sku_reply =
           (case JSON_parse ?w (123 # body @ [125]) of
              None \<Rightarrow> text_response sku_reply
            | Some v \<Rightarrow> v)"
    using C6_match_first_open_to_last_close [of sku_reply _ "js ''Sure: ''" body "[]" ?w] d
    by blast
  have p: "JSON_parse ?w (123 # body @ [125]) =
           Some (JObj [(js ''productSkus'', JArr [JStr (js ''GE-7'')])])"
    unfolding body [symmetric] by (simp add: keyed_def sample_parse_def sku_match_def js_def)
  have n: "jsonMatch (js ''hello'') = None"
    by (simp add: jsonMatch_def js_def)
  have t: "aiResponse (keyed None (Some (js ''hello''))) (js ''hello'') =
           text_response (js ''hello'')"
    using C6_match_first_open_to_last_close
            [of "js ''hello''" _ _ _ _ "keyed None (Some (js ''hello''))"] n
    by blast
  have h: "generateContent ?v = Some sku_reply \<and> jsonMatch sku_reply = Some sku_match \<and>
           narrow_parse sku_match = JSON_parse ?v sku_match"
    using m by (simp add: keyed_def narrow_parse_def)
  have i: "POST (ask ''pump'') (?v\<lparr>JSON_parse := narrow_parse\<rparr>) = POST (ask ''pump'') ?v"
    using C6_match_first_open_to_last_close
            [of sku_reply sku_match _ _ _ ?v narrow_parse "ask ''pump''"] h
    by blast
  show ?thesis using m a p t i wm wr by simp
qed

text \<open>
  C6 as the specification states it fails on the reply \<^verbatim>\<open>{} and {b}\<close>. Its first balanced
  brace-delimited substring is \<^verbatim>\<open>{}\<close>, which is JSON. The handler's match is the whole
  reply, which is not, so the reply is treated as plain text.
\<close>

theorem C6_first_balanced_counterexample:
  "spec_first_balanced (js ''{} and {b}'') = Some (js ''{}'') \<and>
   jsonMatch (js ''{} and {b}'') = Some (js ''{} and {b}'') \<and>
   sample_parse (js ''{}'') = Some (JObj []) \<and>
   aiResponse (keyed None (Some (js ''{} and {b}''))) (js ''{} and {b}'') =
     text_response (js ''{} and {b}'')"
  by (simp add: handler_defs sample_defs)

subsection \<open>A catalogue that fails\<close>

lemma map_skus_empty: "map_skus v (JArr []) = Inr []"
  by (simp add: map_skus_def split: option.splits)

lemma gemini_try_empty:
  "gemini_try w (Some (JStr q)) (JArr []) reply = Inr r \<Longrightarrow> \<exists>a s. r = ok a [] s"
  unfolding gemini_try_def Let_def
  by (auto simp: map_skus_empty basic_filtering_def split: sum.splits prod.splits)

lemma gemini_catch_empty: "\<exists>a s. gemini_catch w (Some (JStr q)) (JArr []) = Inr (ok a [] s)"
  by (auto simp: gemini_catch_def)

lemma with_key_empty:
  "\<exists>a s calls. with_key w (Some (JStr q)) (JArr []) = (Inr (ok a [] s), calls)"
proof (cases "generateContent w")
  case None
  then show ?thesis using gemini_catch_empty [of w q]
    by (auto simp: with_key_def build_prompt_def to_string_val_def)
next
  case (Some reply)
  show ?thesis
  proof (cases "gemini_try w (Some (JStr q)) (JArr []) reply")
    case (Inl e)
    then show ?thesis using Some gemini_catch_empty [of w q]
      by (auto simp: with_key_def build_prompt_def to_string_val_def)
  next
    case (Inr r)
    then show ?thesis using Some gemini_try_empty [OF Inr]
      by (auto simp: with_key_def build_prompt_def to_string_val_def)
  qed
qed

text \<open>
  When \<^verbatim>\<open>fetch\<close> or \<^verbatim>\<open>.json()\<close> rejects, the handler goes on with the empty array: a
  non-empty query string is answered with status 200, all three fields and no products,
  with and without a key, whatever the model call does.
\<close>

lemma POST_rejected_fetch:
  assumes "catalog w = None"
    and "get_prop b (js ''query'') = Inr (Some (JStr q))"
    and "q \<noteq> []"
  shows "\<exists>a s. fst (POST (Some b) w) =
           \<lparr>status = 200, error = None, answer = Some a, recommendedProducts = Some [],
            relatedSuggestions = Some s\<rparr> \<and>
         hd (snd (POST (Some b) w)) = CatalogFetch"
proof -
  have f: "fetched w = JArr []" using assms(1) by (simp add: fetched_def)
  show ?thesis
  proof (cases "key_configured w")
    case True
    obtain a s calls where "with_key w (Some (JStr q)) (JArr []) = (Inr (ok a [] s), calls)"
      using with_key_empty by blast
    then show ?thesis using assms True f by (simp add: POST_def ok_def)
  next
    case False
    then show ?thesis using assms f
      by (simp add: POST_def basic_search_def ok_def)
  qed
qed

text \<open>
  C8 at a failing input. The catalogue answers with an HTTP error whose body is the JSON
  object \<^verbatim>\<open>{"error": "Internal Server Error"}\<close>. \<^verbatim>\<open>fetch\<close> resolves, \<^verbatim>\<open>.json()\<close> resolves,
  and \<^verbatim>\<open>products\<close> is that object: \<^verbatim>\<open>products.filter\<close> and \<^verbatim>\<open>products.slice\<close> throw, and
  the request fails with the 500 response, with and without a key (with a key the model is
  not even called). When the fetch is rejected instead, the same request is answered with
  status 200 and no products.
\<close>

theorem C8_error_body_fails_request:
  "POST (ask ''pump'') (no_key (Some error_body)) = (route_error, [CatalogFetch]) \<and>
   POST (ask ''pump'') (keyed (Some error_body) (Some (js ''hello''))) =
     (route_error, [CatalogFetch]) \<and>
   status (fst (POST (ask ''pump'') (no_key None))) = 200 \<and>
   recommendedProducts (fst (POST (ask ''pump'') (no_key None))) = Some []"
  by (simp add: handler_defs sample_defs)

end
